theory Spec2Isabelle
  imports Main
begin

section \<open>Protocol data\<close>

text \<open>
  The task managers of \<^verbatim>\<open>finala2e/task_manager.py\<close> (class AgentTaskManager) and
  \<^verbatim>\<open>notebooks/math_agent_a2a.py\<close> (class MathAgentTaskManager) exchange the protocol
  objects below. The six task states are those of the data model.
\<close>

datatype TaskState = SUBMITTED | WORKING | INPUT_REQUIRED | COMPLETED | CANCELED | FAILED

text \<open>A content part is a tagged union; only the text part is supported by the managers.\<close>

datatype Part = TextPart string | FilePart string | DataPart string

record Message =
  role :: string
  parts :: "Part list"

record Artifact =
  artifact_role :: "string option"
  artifact_parts :: "Part list"
  artifact_index :: "nat option"
  artifact_append :: "bool option"

record TaskStatus =
  state :: TaskState
  message :: "Message option"

record Task =
  task_id :: string
  sessionId :: string
  status :: TaskStatus
  artifacts :: "Artifact list"
  history :: "TaskStatus list"

record PushNotificationConfig =
  url :: string

record TaskSendParams =
  params_id :: string
  params_sessionId :: string
  params_message :: Message
  acceptedOutputModes :: "string list"
  pushNotification :: "PushNotificationConfig option"
  historyLength :: "nat option"

text \<open>SendTaskRequest and SendTaskStreamingRequest carry the same fields.\<close>

record SendTaskRequest =
  request_id :: int
  params :: TaskSendParams

datatype JSONRPCError =
    InvalidParamsError string
  | InternalError string
  | IncompatibleTypesError

text \<open>SendTaskResponse and JSONRPCResponse: the request id, and a result or an error.\<close>

record SendTaskResponse =
  response_id :: int
  result :: "Task option"
  error :: "JSONRPCError option"

datatype Event =
    TaskStatusUpdateEvent string TaskStatus bool
  | TaskArtifactUpdateEvent string Artifact
  | ErrorEvent JSONRPCError

text \<open>
  Exceptions are values. \<open>AgentError\<close> stands for whatever the agent collaborator raises;
  \<open>exn_str\<close> is Python's \<^verbatim>\<open>str(e)\<close>, used by the f-strings of the handlers.
\<close>

datatype exn =
    ValueError string
  | IndexError
  | NotFoundError string
  | AlreadySubscribedError
  | ClosedQueueError
  | AgentError string

fun exn_str :: "exn \<Rightarrow> string" where
  "exn_str (ValueError m) = m"
| "exn_str IndexError = ''list index out of range''"
| "exn_str (NotFoundError m) = m"
| "exn_str AlreadySubscribedError = ''Task is already subscribed''"
| "exn_str ClosedQueueError = ''Queue is closed''"
| "exn_str (AgentError m) = m"

section \<open>The agent collaborator\<close>

text \<open>
  The dictionaries the agents return and yield always carry the three keys
  \<^verbatim>\<open>is_task_complete\<close>, \<^verbatim>\<open>require_user_input\<close> and \<^verbatim>\<open>content\<close>
  (\<^verbatim>\<open>finala2e/agent.py\<close>, \<^verbatim>\<open>notebooks/math_agent_a2a.py\<close>).
\<close>

record AgentResponse =
  is_task_complete :: bool
  require_user_input :: bool
  content :: string

text \<open>
  An asynchronous generator yields increments and may raise; once it has raised it yields
  nothing more.
\<close>

datatype StreamItem = Yield AgentResponse | Raise exn

text \<open>
  The task managers see the agent only through \<^verbatim>\<open>invoke(query, sessionId)\<close>,
  \<^verbatim>\<open>stream(query, sessionId)\<close> and \<^verbatim>\<open>SUPPORTED_CONTENT_TYPES\<close>.
\<close>

record Agent =
  SUPPORTED_CONTENT_TYPES :: "string list"
  invoke :: "string \<Rightarrow> string \<Rightarrow> exn + AgentResponse"
  stream :: "string \<Rightarrow> string \<Rightarrow> StreamItem list"

text \<open>
  What the two agents of the repository yield. The last message of each state of the graph
  is an AI message with tool calls, a tool message, or something else.
\<close>

datatype GraphMessage = AIToolCalls | ToolMessage | OtherMessage

text \<open>A2EMathCurrencyAgent.stream (\<^verbatim>\<open>finala2e/agent.py\<close>).\<close>

fun A2E_progress :: "GraphMessage list \<Rightarrow> AgentResponse list" where
  "A2E_progress [] = []"
| "A2E_progress (AIToolCalls # ms) =
     \<lparr>is_task_complete = False, require_user_input = False,
      content = ''Processing your request...''\<rparr> # A2E_progress ms"
| "A2E_progress (ToolMessage # ms) =
     \<lparr>is_task_complete = False, require_user_input = False,
      content = ''Computing results...''\<rparr> # A2E_progress ms"
| "A2E_progress (OtherMessage # ms) = A2E_progress ms"

definition A2E_stream :: "bool \<Rightarrow> GraphMessage list \<Rightarrow> string \<Rightarrow> AgentResponse list" where
  "A2E_stream graph_ready ms final_content =
     (if \<not> graph_ready then
        [\<lparr>is_task_complete = False, require_user_input = True,
          content = ''Agent initialization failed. Please try again later.''\<rparr>]
      else A2E_progress ms @
        [\<lparr>is_task_complete = True, require_user_input = False, content = final_content\<rparr>])"

text \<open>MathAgent.get_agent_response and MathAgent.stream (\<^verbatim>\<open>notebooks/math_agent_a2a.py\<close>).\<close>

datatype ResponseStatus = Status_input_required | Status_completed | Status_error

fun get_agent_response :: "(ResponseStatus \<times> string) option \<Rightarrow> AgentResponse" where
  "get_agent_response (Some (Status_input_required, m)) =
     \<lparr>is_task_complete = False, require_user_input = True, content = m\<rparr>"
| "get_agent_response (Some (Status_error, m)) =
     \<lparr>is_task_complete = False, require_user_input = True, content = m\<rparr>"
| "get_agent_response (Some (Status_completed, m)) =
     \<lparr>is_task_complete = True, require_user_input = False, content = m\<rparr>"
| "get_agent_response None =
     \<lparr>is_task_complete = False, require_user_input = True,
      content = ''We are unable to process your request at the moment. Please try again.''\<rparr>"

fun Math_progress :: "GraphMessage list \<Rightarrow> AgentResponse list" where
  "Math_progress [] = []"
| "Math_progress (AIToolCalls # ms) =
     \<lparr>is_task_complete = False, require_user_input = False,
      content = ''Calculating...''\<rparr> # Math_progress ms"
| "Math_progress (ToolMessage # ms) =
     \<lparr>is_task_complete = False, require_user_input = False,
      content = ''Processing the result...''\<rparr> # Math_progress ms"
| "Math_progress (OtherMessage # ms) = Math_progress ms"

definition Math_stream ::
  "GraphMessage list \<Rightarrow> (ResponseStatus \<times> string) option \<Rightarrow> AgentResponse list" where
  "Math_stream ms structured_response = Math_progress ms @ [get_agent_response structured_response]"

section \<open>The in-memory task manager (base class)\<close>

text \<open>
  Every call into the store, the notifier and the event queues is recorded, in order, in
  \<open>calls\<close>; the record is what ordering properties are stated on.
\<close>

datatype Effect =
    UpsertTask string
  | UpdateStore string TaskStatus "Artifact list option"
  | SetPushNotificationInfo string PushNotificationConfig
  | SendPushNotification string Task
  | SetupSSEConsumer string bool
  | EnqueueEvent string Event

record EventQueue =
  events :: "Event list"
  queue_closed :: bool

record Store =
  tasks :: "string \<rightharpoonup> Task"
  push_notification_infos :: "string \<rightharpoonup> PushNotificationConfig"
  task_sse_subscribers :: "string \<rightharpoonup> EventQueue"
  calls :: "Effect list"

definition record_call :: "Effect \<Rightarrow> Store \<Rightarrow> Store" where
  "record_call e s = s\<lparr>calls := calls s @ [e]\<rparr>"

text \<open>
  Modelled from the spec: \<^verbatim>\<open>InMemoryTaskManager.upsert_task\<close> of the package
  \<^verbatim>\<open>common.server.task_manager\<close>, which is not among the sources. If no task exists for
  the id, one is created with state SUBMITTED and empty history; otherwise the existing
  task is returned unchanged.
\<close>

definition upsert_task :: "Store \<Rightarrow> TaskSendParams \<Rightarrow> Task \<times> Store" where
  "upsert_task s p =
     (let s1 = record_call (UpsertTask (params_id p)) s in
      case tasks s1 (params_id p) of
        Some t \<Rightarrow> (t, s1)
      | None \<Rightarrow>
          (let t = \<lparr>task_id = params_id p, sessionId = params_sessionId p,
                    status = \<lparr>state = SUBMITTED, message = None\<rparr>,
                    artifacts = [], history = []\<rparr>
           in (t, s1\<lparr>tasks := (tasks s1)(params_id p \<mapsto> t)\<rparr>)))"

text \<open>
  Modelled from the spec: \<^verbatim>\<open>InMemoryTaskManager.update_store\<close>, not among the sources.
  It fails with a not-found error if the id is unknown; otherwise it sets the status,
  appends the artifacts to the task's artifact list, appends the previous status to the
  history, and returns the updated task.
\<close>

definition update_store ::
  "Store \<Rightarrow> string \<Rightarrow> TaskStatus \<Rightarrow> Artifact list option \<Rightarrow> (exn + Task) \<times> Store" where
  "update_store s tid st arts =
     (let s1 = record_call (UpdateStore tid st arts) s in
      case tasks s1 tid of
        None \<Rightarrow> (Inl (NotFoundError tid), s1)
      | Some t \<Rightarrow>
          (let t' = t\<lparr>status := st,
                      artifacts := artifacts t @ (case arts of None \<Rightarrow> [] | Some as \<Rightarrow> as),
                      history := history t @ [status t]\<rparr>
           in (Inr t', s1\<lparr>tasks := (tasks s1)(tid \<mapsto> t')\<rparr>)))"

text \<open>
  Modelled from the spec: \<^verbatim>\<open>InMemoryTaskManager.append_task_history\<close>, not among the
  sources. It returns a copy of the task with the history truncated to the last \<open>n\<close>
  entries (unbounded if \<open>n\<close> is absent).
\<close>

definition append_task_history :: "Task \<Rightarrow> nat option \<Rightarrow> Task" where
  "append_task_history t n =
     (case n of
        None \<Rightarrow> t
      | Some k \<Rightarrow> t\<lparr>history := drop (length (history t) - k) (history t)\<rparr>)"

text \<open>
  Modelled from the spec: the push-target association of the base class
  (\<^verbatim>\<open>set_push_notification_info\<close>, \<^verbatim>\<open>has_push_notification_info\<close>,
  \<^verbatim>\<open>get_push_notification_info\<close>), not among the sources: at most one config per task
  id, overwritten by re-registration.
\<close>

definition base_set_push_notification_info ::
  "Store \<Rightarrow> string \<Rightarrow> PushNotificationConfig \<Rightarrow> Store" where
  "base_set_push_notification_info s tid cfg =
     (let s1 = record_call (SetPushNotificationInfo tid cfg) s in
      s1\<lparr>push_notification_infos := (push_notification_infos s1)(tid \<mapsto> cfg)\<rparr>)"

definition has_push_notification_info :: "Store \<Rightarrow> string \<Rightarrow> bool" where
  "has_push_notification_info s tid = (push_notification_infos s tid \<noteq> None)"

definition get_push_notification_info :: "Store \<Rightarrow> string \<Rightarrow> PushNotificationConfig option" where
  "get_push_notification_info s tid = push_notification_infos s tid"

text \<open>
  Modelled from the spec: the event queue of the base class, not among the sources. Each
  task id owns zero or one queue. Setting up a consumer without the resubscribe flag fails
  if one exists already; with the flag it attaches to the existing queue and fails if there
  is none. Enqueueing appends the event; after a status event with the final flag the queue
  is closed and a further enqueue fails. Without a queue, enqueueing is a no-op.
\<close>

definition setup_sse_consumer :: "Store \<Rightarrow> string \<Rightarrow> bool \<Rightarrow> (exn + unit) \<times> Store" where
  "setup_sse_consumer s tid resubscribe =
     (let s1 = record_call (SetupSSEConsumer tid resubscribe) s in
      case task_sse_subscribers s1 tid of
        Some q \<Rightarrow> if resubscribe then (Inr (), s1) else (Inl AlreadySubscribedError, s1)
      | None \<Rightarrow>
          if resubscribe then (Inl (NotFoundError tid), s1)
          else (Inr (), s1\<lparr>task_sse_subscribers :=
                  (task_sse_subscribers s1)(tid \<mapsto> \<lparr>events = [], queue_closed = False\<rparr>)\<rparr>))"

fun is_final_event :: "Event \<Rightarrow> bool" where
  "is_final_event (TaskStatusUpdateEvent _ _ final) = final"
| "is_final_event _ = False"

definition enqueue_events_for_sse :: "Store \<Rightarrow> string \<Rightarrow> Event \<Rightarrow> (exn + unit) \<times> Store" where
  "enqueue_events_for_sse s tid ev =
     (let s1 = record_call (EnqueueEvent tid ev) s in
      case task_sse_subscribers s1 tid of
        None \<Rightarrow> (Inr (), s1)
      | Some q \<Rightarrow>
          if queue_closed q then (Inl ClosedQueueError, s1)
          else (Inr (), s1\<lparr>task_sse_subscribers :=
                  (task_sse_subscribers s1)(tid \<mapsto>
                     \<lparr>events = events q @ [ev], queue_closed = is_final_event ev\<rparr>)\<rparr>))"

text \<open>
  Modelled from the spec: \<^verbatim>\<open>common.server.utils.are_modalities_compatible\<close>, not among the
  sources: the accepted output modes must intersect the supported content types.
\<close>

definition are_modalities_compatible :: "string list \<Rightarrow> string list \<Rightarrow> bool" where
  "are_modalities_compatible accepted supported = (filter (\<lambda>m. m \<in> set supported) accepted \<noteq> [])"

definition new_incompatible_types_error :: "int \<Rightarrow> SendTaskResponse" where
  "new_incompatible_types_error rid =
     \<lparr>response_id = rid, result = None, error = Some IncompatibleTypesError\<rparr>"

text \<open>
  Modelled from the spec: the sender of \<^verbatim>\<open>common.utils.push_notification_auth\<close>, not among
  the sources. Verifying a URL answers true or false and never throws; delivery is best
  effort and its failures are only logged, so sending is an effect that always returns.
\<close>

record PushNotificationSenderAuth =
  verify_push_notification_url :: "string \<Rightarrow> bool"

definition send_push_notification :: "Store \<Rightarrow> string \<Rightarrow> Task \<Rightarrow> Store" where
  "send_push_notification s u t = record_call (SendPushNotification u t) s"

section \<open>AgentTaskManager (finala2e/task_manager.py)\<close>

text \<open>The constructor's two arguments; the sender is optional.\<close>

record AgentTaskManager =
  agent :: Agent
  notification_sender_auth :: "PushNotificationSenderAuth option"

text \<open>
  \<^verbatim>\<open>_get_user_query\<close>, the same in both managers: \<^verbatim>\<open>message.parts[0]\<close> raises
  IndexError on an empty list, and a first part that is not a text part raises ValueError.
\<close>

definition get_user_query :: "TaskSendParams \<Rightarrow> exn + string" where
  "get_user_query p =
     (case parts (params_message p) of
        [] \<Rightarrow> Inl IndexError
      | part # rest \<Rightarrow>
          (case part of
             TextPart t \<Rightarrow> Inr t
           | FilePart f \<Rightarrow> Inl (ValueError ''Only text parts are supported'')
           | DataPart d \<Rightarrow> Inl (ValueError ''Only text parts are supported'')))"

text \<open>\<^verbatim>\<open>_validate_request\<close>, given the supported content types it compares with.\<close>

definition validate_request_for :: "string list \<Rightarrow> SendTaskRequest \<Rightarrow> SendTaskResponse option" where
  "validate_request_for supported request =
     (let task_send_params = params request in
      if \<not> are_modalities_compatible (acceptedOutputModes task_send_params) supported
      then Some (new_incompatible_types_error (request_id request))
      else
        (case pushNotification task_send_params of
           None \<Rightarrow> None
         | Some cfg \<Rightarrow>
             if url cfg = []
             then Some \<lparr>response_id = request_id request, result = None,
                        error = Some (InvalidParamsError ''Push notification URL is missing'')\<rparr>
             else None))"

definition validate_request :: "AgentTaskManager \<Rightarrow> SendTaskRequest \<Rightarrow> SendTaskResponse option" where
  "validate_request m request =
     validate_request_for (SUPPORTED_CONTENT_TYPES (agent m)) request"

text \<open>
  \<^verbatim>\<open>set_push_notification_info\<close>: the URL is verified only when a sender is configured;
  the association is stored only after the verification.
\<close>

definition set_push_notification_info ::
  "AgentTaskManager \<Rightarrow> Store \<Rightarrow> string \<Rightarrow> PushNotificationConfig \<Rightarrow> bool \<times> Store" where
  "set_push_notification_info m s tid cfg =
     (case notification_sender_auth m of
        None \<Rightarrow> (True, base_set_push_notification_info s tid cfg)
      | Some auth \<Rightarrow>
          if \<not> verify_push_notification_url auth (url cfg) then (False, s)
          else (True, base_set_push_notification_info s tid cfg))"

text \<open>
  The block \<^verbatim>\<open>if request.params.pushNotification: if not await
  self.set_push_notification_info(...): return ...\<close> of both handlers: it answers whether
  the handler goes on.
\<close>

definition register_push_notification ::
  "AgentTaskManager \<Rightarrow> Store \<Rightarrow> SendTaskRequest \<Rightarrow> bool \<times> Store" where
  "register_push_notification m s request =
     (case pushNotification (params request) of
        None \<Rightarrow> (True, s)
      | Some cfg \<Rightarrow> set_push_notification_info m s (params_id (params request)) cfg)"

definition send_task_notification :: "AgentTaskManager \<Rightarrow> Store \<Rightarrow> Task \<Rightarrow> Store" where
  "send_task_notification m s t =
     (if \<not> has_push_notification_info s (task_id t) then s
      else
        (case get_push_notification_info s (task_id t) of
           None \<Rightarrow> s
         | Some push_info \<Rightarrow>
             (case notification_sender_auth m of
                None \<Rightarrow> s
              | Some auth \<Rightarrow> send_push_notification s (url push_info) t)))"

definition process_agent_response ::
  "AgentTaskManager \<Rightarrow> Store \<Rightarrow> SendTaskRequest \<Rightarrow> AgentResponse \<Rightarrow>
   (exn + SendTaskResponse) \<times> Store" where
  "process_agent_response m s request agent_response =
     (let task_send_params = params request;
          tid = params_id task_send_params;
          history_length = historyLength task_send_params;
          ps = [TextPart (content agent_response)];
          (task_status, artifact) =
            (if require_user_input agent_response
             then (\<lparr>state = INPUT_REQUIRED,
                     message = Some \<lparr>role = ''agent'', parts = ps\<rparr>\<rparr>, None)
             else (\<lparr>state = COMPLETED, message = None\<rparr>,
                   Some \<lparr>artifact_role = Some ''assistant'', artifact_parts = ps,
                         artifact_index = None, artifact_append = None\<rparr>))
      in case update_store s tid task_status
                (case artifact of None \<Rightarrow> None | Some a \<Rightarrow> Some [a]) of
           (Inl e, s1) \<Rightarrow> (Inl e, s1)
         | (Inr task, s1) \<Rightarrow>
             (let task_result = append_task_history task history_length;
                  s2 = send_task_notification m s1 task
              in (Inr \<lparr>response_id = request_id request, result = Some task_result,
                       error = None\<rparr>, s2)))"

text \<open>
  \<^verbatim>\<open>on_send_task\<close>. The outcome is \<open>Inr\<close> of the response the handler returns, or
  \<open>Inl\<close> of the exception that leaves it. The query is extracted before the
  \<^verbatim>\<open>try\<close>; the \<^verbatim>\<open>try\<close> covers the agent call and the processing of its response.
\<close>

definition on_send_task ::
  "AgentTaskManager \<Rightarrow> Store \<Rightarrow> SendTaskRequest \<Rightarrow> (exn + SendTaskResponse) \<times> Store" where
  "on_send_task m s request =
     (case validate_request m request of
        Some validation_error \<Rightarrow>
          (Inr \<lparr>response_id = request_id request, result = None,
                error = error validation_error\<rparr>, s)
      | None \<Rightarrow>
          (let (registered, s1) = register_push_notification m s request
           in if \<not> registered
              then (Inr \<lparr>response_id = request_id request, result = None,
                         error = Some (InvalidParamsError ''Push notification URL is invalid'')\<rparr>, s1)
              else
                (let (upserted, s2) = upsert_task s1 (params request) in
                 case update_store s2 (params_id (params request))
                        \<lparr>state = WORKING, message = None\<rparr> None of
                   (Inl e, s3) \<Rightarrow> (Inl e, s3)
                 | (Inr task, s3) \<Rightarrow>
                     (let s4 = send_task_notification m s3 task;
                          task_send_params = params request
                      in case get_user_query task_send_params of
                           Inl e \<Rightarrow> (Inl e, s4)
                         | Inr query \<Rightarrow>
                             (case invoke (agent m) query (params_sessionId task_send_params) of
                                Inl e \<Rightarrow>
                                  (Inr \<lparr>response_id = request_id request, result = None,
                                        error = Some (InternalError
                                          (''Error invoking agent: '' @ exn_str e))\<rparr>, s4)
                              | Inr agent_response \<Rightarrow>
                                  (case process_agent_response m s4 request agent_response of
                                     (Inl e, s5) \<Rightarrow>
                                       (Inr \<lparr>response_id = request_id request, result = None,
                                             error = Some (InternalError
                                               (''Error invoking agent: '' @ exn_str e))\<rparr>, s5)
                                   | (Inr response, s5) \<Rightarrow> (Inr response, s5)))))))"

text \<open>
  The body of the loop of \<^verbatim>\<open>_run_streaming_agent\<close>, for one increment: the derived
  status, artifact and final flag, then the store update, the notification and the events.
\<close>

definition increment_update ::
  "AgentResponse \<Rightarrow> TaskStatus \<times> Artifact option \<times> bool" where
  "increment_update item =
     (let ps = [TextPart (content item)] in
      if \<not> is_task_complete item \<and> \<not> require_user_input item
      then (\<lparr>state = WORKING, message = Some \<lparr>role = ''agent'', parts = ps\<rparr>\<rparr>, None, False)
      else if require_user_input item
      then (\<lparr>state = INPUT_REQUIRED, message = Some \<lparr>role = ''agent'', parts = ps\<rparr>\<rparr>,
            None, True)
      else (\<lparr>state = COMPLETED, message = None\<rparr>,
            Some \<lparr>artifact_role = Some ''assistant'', artifact_parts = ps,
                  artifact_index = None, artifact_append = None\<rparr>, True))"

definition stream_item ::
  "AgentTaskManager \<Rightarrow> TaskSendParams \<Rightarrow> AgentResponse \<Rightarrow> Store \<Rightarrow> (exn + unit) \<times> Store" where
  "stream_item m task_send_params item s =
     (let (task_status, artifact, end_stream) = increment_update item;
          tid = params_id task_send_params
      in case update_store s tid task_status
                (case artifact of None \<Rightarrow> None | Some a \<Rightarrow> Some [a]) of
           (Inl e, s1) \<Rightarrow> (Inl e, s1)
         | (Inr latest_task, s1) \<Rightarrow>
             (let s2 = send_task_notification m s1 latest_task in
              case (case artifact of
                      None \<Rightarrow> (Inr (), s2)
                    | Some a \<Rightarrow> enqueue_events_for_sse s2 tid (TaskArtifactUpdateEvent tid a)) of
                (Inl e, s3) \<Rightarrow> (Inl e, s3)
              | (Inr u, s3) \<Rightarrow>
                  enqueue_events_for_sse s3 tid
                    (TaskStatusUpdateEvent tid task_status end_stream)))"

text \<open>The \<^verbatim>\<open>async for\<close> loop: it runs until the stream ends or something raises.\<close>

fun stream_loop ::
  "AgentTaskManager \<Rightarrow> TaskSendParams \<Rightarrow> StreamItem list \<Rightarrow> Store \<Rightarrow> (exn + unit) \<times> Store" where
  "stream_loop m p [] s = (Inr (), s)"
| "stream_loop m p (Raise e # rest) s = (Inl e, s)"
| "stream_loop m p (Yield item # rest) s =
     (case stream_item m p item s of
        (Inl e, s1) \<Rightarrow> (Inl e, s1)
      | (Inr u, s1) \<Rightarrow> stream_loop m p rest s1)"

text \<open>
  \<^verbatim>\<open>_run_streaming_agent\<close>: the query is extracted before the \<^verbatim>\<open>try\<close>; whatever the
  loop raises is caught and reported by one error event.
\<close>

definition run_streaming_agent ::
  "AgentTaskManager \<Rightarrow> Store \<Rightarrow> SendTaskRequest \<Rightarrow> (exn + unit) \<times> Store" where
  "run_streaming_agent m s request =
     (let task_send_params = params request in
      case get_user_query task_send_params of
        Inl e \<Rightarrow> (Inl e, s)
      | Inr query \<Rightarrow>
          (case stream_loop m task_send_params
                  (stream (agent m) query (params_sessionId task_send_params)) s of
             (Inr u, s1) \<Rightarrow> (Inr (), s1)
           | (Inl e, s1) \<Rightarrow>
               enqueue_events_for_sse s1 (params_id task_send_params)
                 (ErrorEvent (InternalError
                    (''An error occurred while streaming the response: '' @ exn_str e)))))"

text \<open>
  \<^verbatim>\<open>on_send_task_subscribe\<close> returns an error response or the event stream of the task;
  in the second case the streaming run has been scheduled and runs later.
\<close>

datatype SubscribeResult = ErrorResponse SendTaskResponse | EventStream int string

definition on_send_task_subscribe ::
  "AgentTaskManager \<Rightarrow> Store \<Rightarrow> SendTaskRequest \<Rightarrow> SubscribeResult \<times> Store" where
  "on_send_task_subscribe m s request =
     (case validate_request m request of
        Some err \<Rightarrow> (ErrorResponse err, s)
      | None \<Rightarrow>
          (let (upserted, s1) = upsert_task s (params request);
               (registered, s2) = register_push_notification m s1 request
           in if \<not> registered
              then (ErrorResponse \<lparr>response_id = request_id request, result = None,
                      error = Some (InvalidParamsError ''Push notification URL is invalid'')\<rparr>, s2)
              else
                (case setup_sse_consumer s2 (params_id (params request)) False of
                   (Inl e, s3) \<Rightarrow>
                     (ErrorResponse \<lparr>response_id = request_id request, result = None,
                        error = Some (InternalError
                          (''An error occurred while streaming the response: '' @ exn_str e))\<rparr>, s3)
                 | (Inr u, s3) \<Rightarrow>
                     (EventStream (request_id request) (params_id (params request)), s3))))"

section \<open>MathAgentTaskManager (notebooks/math_agent_a2a.py)\<close>

text \<open>The constructor's two arguments; here the sender is required.\<close>

record MathAgentTaskManager =
  math_agent :: Agent
  math_notification_sender_auth :: PushNotificationSenderAuth

text \<open>\<^verbatim>\<open>MathAgent.SUPPORTED_CONTENT_TYPES\<close>, which this manager's validation reads.\<close>

definition MathAgent_SUPPORTED_CONTENT_TYPES :: "string list" where
  "MathAgent_SUPPORTED_CONTENT_TYPES = [''text'', ''text/plain'']"

definition Math_validate_request :: "SendTaskRequest \<Rightarrow> SendTaskResponse option" where
  "Math_validate_request request =
     validate_request_for MathAgent_SUPPORTED_CONTENT_TYPES request"

text \<open>\<^verbatim>\<open>set_push_notification_info\<close>: the URL is always verified.\<close>

definition Math_set_push_notification_info ::
  "MathAgentTaskManager \<Rightarrow> Store \<Rightarrow> string \<Rightarrow> PushNotificationConfig \<Rightarrow> bool \<times> Store" where
  "Math_set_push_notification_info m s tid cfg =
     (if \<not> verify_push_notification_url (math_notification_sender_auth m) (url cfg)
      then (False, s)
      else (True, base_set_push_notification_info s tid cfg))"

definition Math_register_push_notification ::
  "MathAgentTaskManager \<Rightarrow> Store \<Rightarrow> SendTaskRequest \<Rightarrow> bool \<times> Store" where
  "Math_register_push_notification m s request =
     (case pushNotification (params request) of
        None \<Rightarrow> (True, s)
      | Some cfg \<Rightarrow> Math_set_push_notification_info m s (params_id (params request)) cfg)"

text \<open>
  \<^verbatim>\<open>send_task_notification\<close>: once \<^verbatim>\<open>has_push_notification_info\<close> has answered true the
  lookup finds a config, so the branch without one is never taken.
\<close>

definition Math_send_task_notification :: "MathAgentTaskManager \<Rightarrow> Store \<Rightarrow> Task \<Rightarrow> Store" where
  "Math_send_task_notification m s t =
     (if \<not> has_push_notification_info s (task_id t) then s
      else
        (case get_push_notification_info s (task_id t) of
           None \<Rightarrow> s
         | Some push_info \<Rightarrow> send_push_notification s (url push_info) t))"

definition Math_process_agent_response ::
  "MathAgentTaskManager \<Rightarrow> Store \<Rightarrow> SendTaskRequest \<Rightarrow> AgentResponse \<Rightarrow>
   (exn + SendTaskResponse) \<times> Store" where
  "Math_process_agent_response m s request agent_response =
     (let task_send_params = params request;
          tid = params_id task_send_params;
          history_length = historyLength task_send_params;
          ps = [TextPart (content agent_response)];
          (task_status, artifact) =
            (if require_user_input agent_response
             then (\<lparr>state = INPUT_REQUIRED,
                     message = Some \<lparr>role = ''agent'', parts = ps\<rparr>\<rparr>, None)
             else (\<lparr>state = COMPLETED, message = None\<rparr>,
                   Some \<lparr>artifact_role = None, artifact_parts = ps,
                         artifact_index = None, artifact_append = None\<rparr>))
      in case update_store s tid task_status
                (case artifact of None \<Rightarrow> None | Some a \<Rightarrow> Some [a]) of
           (Inl e, s1) \<Rightarrow> (Inl e, s1)
         | (Inr task, s1) \<Rightarrow>
             (let task_result = append_task_history task history_length;
                  s2 = Math_send_task_notification m s1 task
              in (Inr \<lparr>response_id = request_id request, result = Some task_result,
                       error = None\<rparr>, s2)))"

text \<open>
  \<^verbatim>\<open>on_send_task\<close>: an exception of the agent call is caught and raised again as a
  ValueError; the processing of the response is outside the \<^verbatim>\<open>try\<close>.
\<close>

definition Math_on_send_task ::
  "MathAgentTaskManager \<Rightarrow> Store \<Rightarrow> SendTaskRequest \<Rightarrow> (exn + SendTaskResponse) \<times> Store" where
  "Math_on_send_task m s request =
     (case Math_validate_request request of
        Some validation_error \<Rightarrow>
          (Inr \<lparr>response_id = request_id request, result = None,
                error = error validation_error\<rparr>, s)
      | None \<Rightarrow>
          (let (registered, s1) = Math_register_push_notification m s request
           in if \<not> registered
              then (Inr \<lparr>response_id = request_id request, result = None,
                         error = Some (InvalidParamsError ''Push notification URL is invalid'')\<rparr>, s1)
              else
                (let (upserted, s2) = upsert_task s1 (params request) in
                 case update_store s2 (params_id (params request))
                        \<lparr>state = WORKING, message = None\<rparr> None of
                   (Inl e, s3) \<Rightarrow> (Inl e, s3)
                 | (Inr task, s3) \<Rightarrow>
                     (let s4 = Math_send_task_notification m s3 task;
                          task_send_params = params request
                      in case get_user_query task_send_params of
                           Inl e \<Rightarrow> (Inl e, s4)
                         | Inr query \<Rightarrow>
                             (case invoke (math_agent m) query
                                     (params_sessionId task_send_params) of
                                Inl e \<Rightarrow>
                                  (Inl (ValueError (''Error invoking agent: '' @ exn_str e)), s4)
                              | Inr agent_response \<Rightarrow>
                                  Math_process_agent_response m s4 request agent_response)))))"

definition Math_increment_update ::
  "AgentResponse \<Rightarrow> TaskStatus \<times> Artifact option \<times> bool" where
  "Math_increment_update item =
     (let ps = [TextPart (content item)] in
      if \<not> is_task_complete item \<and> \<not> require_user_input item
      then (\<lparr>state = WORKING, message = Some \<lparr>role = ''agent'', parts = ps\<rparr>\<rparr>, None, False)
      else if require_user_input item
      then (\<lparr>state = INPUT_REQUIRED, message = Some \<lparr>role = ''agent'', parts = ps\<rparr>\<rparr>,
            None, True)
      else (\<lparr>state = COMPLETED, message = None\<rparr>,
            Some \<lparr>artifact_role = None, artifact_parts = ps,
                  artifact_index = Some 0, artifact_append = Some False\<rparr>, True))"

definition Math_stream_item ::
  "MathAgentTaskManager \<Rightarrow> TaskSendParams \<Rightarrow> AgentResponse \<Rightarrow> Store \<Rightarrow>
   (exn + unit) \<times> Store" where
  "Math_stream_item m task_send_params item s =
     (let (task_status, artifact, end_stream) = Math_increment_update item;
          tid = params_id task_send_params
      in case update_store s tid task_status
                (case artifact of None \<Rightarrow> None | Some a \<Rightarrow> Some [a]) of
           (Inl e, s1) \<Rightarrow> (Inl e, s1)
         | (Inr latest_task, s1) \<Rightarrow>
             (let s2 = Math_send_task_notification m s1 latest_task in
              case (case artifact of
                      None \<Rightarrow> (Inr (), s2)
                    | Some a \<Rightarrow> enqueue_events_for_sse s2 tid (TaskArtifactUpdateEvent tid a)) of
                (Inl e, s3) \<Rightarrow> (Inl e, s3)
              | (Inr u, s3) \<Rightarrow>
                  enqueue_events_for_sse s3 tid
                    (TaskStatusUpdateEvent tid task_status end_stream)))"

fun Math_stream_loop ::
  "MathAgentTaskManager \<Rightarrow> TaskSendParams \<Rightarrow> StreamItem list \<Rightarrow> Store \<Rightarrow>
   (exn + unit) \<times> Store" where
  "Math_stream_loop m p [] s = (Inr (), s)"
| "Math_stream_loop m p (Raise e # rest) s = (Inl e, s)"
| "Math_stream_loop m p (Yield item # rest) s =
     (case Math_stream_item m p item s of
        (Inl e, s1) \<Rightarrow> (Inl e, s1)
      | (Inr u, s1) \<Rightarrow> Math_stream_loop m p rest s1)"

definition Math_run_streaming_agent ::
  "MathAgentTaskManager \<Rightarrow> Store \<Rightarrow> SendTaskRequest \<Rightarrow> (exn + unit) \<times> Store" where
  "Math_run_streaming_agent m s request =
     (let task_send_params = params request in
      case get_user_query task_send_params of
        Inl e \<Rightarrow> (Inl e, s)
      | Inr query \<Rightarrow>
          (case Math_stream_loop m task_send_params
                  (stream (math_agent m) query (params_sessionId task_send_params)) s of
             (Inr u, s1) \<Rightarrow> (Inr (), s1)
           | (Inl e, s1) \<Rightarrow>
               enqueue_events_for_sse s1 (params_id task_send_params)
                 (ErrorEvent (InternalError
                    (''An error occurred while streaming the response: '' @ exn_str e)))))"

definition Math_on_send_task_subscribe ::
  "MathAgentTaskManager \<Rightarrow> Store \<Rightarrow> SendTaskRequest \<Rightarrow> SubscribeResult \<times> Store" where
  "Math_on_send_task_subscribe m s request =
     (case Math_validate_request request of
        Some err \<Rightarrow> (ErrorResponse err, s)
      | None \<Rightarrow>
          (let (upserted, s1) = upsert_task s (params request);
               (registered, s2) = Math_register_push_notification m s1 request
           in if \<not> registered
              then (ErrorResponse \<lparr>response_id = request_id request, result = None,
                      error = Some (InvalidParamsError ''Push notification URL is invalid'')\<rparr>, s2)
              else
                (case setup_sse_consumer s2 (params_id (params request)) False of
                   (Inl e, s3) \<Rightarrow>
                     (ErrorResponse \<lparr>response_id = request_id request, result = None,
                        error = Some (InternalError
                          ''An error occurred while streaming the response'')\<rparr>, s3)
                 | (Inr u, s3) \<Rightarrow>
                     (EventStream (request_id request) (params_id (params request)), s3))))"

section \<open>Example inputs\<close>

text \<open>Concrete values at which the theorems below are instantiated.\<close>

definition empty_store :: Store where
  "empty_store = \<lparr>tasks = Map.empty, push_notification_infos = Map.empty,
                  task_sse_subscribers = Map.empty, calls = []\<rparr>"

definition answering_agent :: Agent where
  "answering_agent =
     \<lparr>SUPPORTED_CONTENT_TYPES = [''text'', ''text/plain''],
      invoke = (\<lambda>q sid. Inr \<lparr>is_task_complete = True, require_user_input = False,
                             content = ''4''\<rparr>),
      stream = (\<lambda>q sid. map Yield (A2E_stream True [AIToolCalls, ToolMessage] ''4''))\<rparr>"

definition asking_agent :: Agent where
  "asking_agent =
     \<lparr>SUPPORTED_CONTENT_TYPES = [''text'', ''text/plain''],
      invoke = (\<lambda>q sid. Inr \<lparr>is_task_complete = False, require_user_input = True,
                             content = ''Which numbers?''\<rparr>),
      stream = (\<lambda>q sid. map Yield (Math_stream [] (Some (Status_input_required,
                                                      ''Which numbers?''))))\<rparr>"

definition failing_agent :: Agent where
  "failing_agent =
     \<lparr>SUPPORTED_CONTENT_TYPES = [''text'', ''text/plain''],
      invoke = (\<lambda>q sid. Inl (AgentError ''boom'')),
      stream = (\<lambda>q sid. [Yield \<lparr>is_task_complete = False, require_user_input = False,
                                content = ''Calculating...''\<rparr>,
                         Raise (AgentError ''boom'')])\<rparr>"

definition rejecting_auth :: PushNotificationSenderAuth where
  "rejecting_auth = \<lparr>verify_push_notification_url = (\<lambda>u. False)\<rparr>"

definition accepting_auth :: PushNotificationSenderAuth where
  "accepting_auth = \<lparr>verify_push_notification_url = (\<lambda>u. True)\<rparr>"

definition guarded_manager :: "Agent \<Rightarrow> AgentTaskManager" where
  "guarded_manager a = \<lparr>agent = a, notification_sender_auth = Some rejecting_auth\<rparr>"

definition guarded_math_manager :: "Agent \<Rightarrow> MathAgentTaskManager" where
  "guarded_math_manager a = \<lparr>math_agent = a, math_notification_sender_auth = rejecting_auth\<rparr>"

definition text_params :: TaskSendParams where
  "text_params =
     \<lparr>params_id = ''t1'', params_sessionId = ''s1'',
      params_message = \<lparr>role = ''user'', parts = [TextPart ''2+2'']\<rparr>,
      acceptedOutputModes = [''text''], pushNotification = None,
      historyLength = Some 1\<rparr>"

definition text_request :: SendTaskRequest where
  "text_request = \<lparr>request_id = 1, params = text_params\<rparr>"

definition file_request :: SendTaskRequest where
  "file_request =
     \<lparr>request_id = 2,
      params = text_params\<lparr>params_message := \<lparr>role = ''user'', parts = [FilePart ''a.png'']\<rparr>\<rparr>\<rparr>"

definition empty_request :: SendTaskRequest where
  "empty_request =
     \<lparr>request_id = 3,
      params = text_params\<lparr>params_message := \<lparr>role = ''user'', parts = []\<rparr>\<rparr>\<rparr>"

definition push_request :: SendTaskRequest where
  "push_request =
     \<lparr>request_id = 4,
      params = text_params\<lparr>pushNotification := Some \<lparr>url = ''http://unreachable''\<rparr>\<rparr>\<rparr>"

definition image_request :: SendTaskRequest where
  "image_request =
     \<lparr>request_id = 5, params = text_params\<lparr>acceptedOutputModes := [''image/png'']\<rparr>\<rparr>"

definition no_url_request :: SendTaskRequest where
  "no_url_request =
     \<lparr>request_id = 6, params = text_params\<lparr>pushNotification := Some \<lparr>url = []\<rparr>\<rparr>\<rparr>"

text \<open>
  An agent that answers the sum and asks about anything else, a second request on the
  task of \<open>text_request\<close>, and a request whose text part is followed by a file part.
\<close>

definition deciding_agent :: Agent where
  "deciding_agent =
     \<lparr>SUPPORTED_CONTENT_TYPES = [''text'', ''text/plain''],
      invoke = (\<lambda>q sid. if q = ''2+2''
                  then Inr \<lparr>is_task_complete = True, require_user_input = False,
                            content = ''4''\<rparr>
                  else Inr \<lparr>is_task_complete = False, require_user_input = True,
                            content = ''Which numbers?''\<rparr>),
      stream = (\<lambda>q sid. [])\<rparr>"

definition followup_request :: SendTaskRequest where
  "followup_request =
     \<lparr>request_id = 7,
      params = text_params\<lparr>params_message := \<lparr>role = ''user'', parts = [TextPart ''more'']\<rparr>\<rparr>\<rparr>"

definition two_part_request :: SendTaskRequest where
  "two_part_request =
     \<lparr>request_id = 8,
      params = text_params\<lparr>params_message :=
                 \<lparr>role = ''user'', parts = [TextPart ''2+2'', FilePart ''a.png'']\<rparr>\<rparr>\<rparr>"

section \<open>Notions used in the statements\<close>

text \<open>A recorded call that is the delivery of a push notification.\<close>

definition is_push :: "Effect \<Rightarrow> bool" where
  "is_push e = (case e of SendPushNotification u t \<Rightarrow> True | _ \<Rightarrow> False)"

text \<open>The request with the parts of its message replaced.\<close>

definition with_parts :: "SendTaskRequest \<Rightarrow> Part list \<Rightarrow> SendTaskRequest" where
  "with_parts request ps =
     request\<lparr>params := (params request)
        \<lparr>params_message := (params_message (params request))\<lparr>parts := ps\<rparr>\<rparr>\<rparr>"

text \<open>The artifacts a task id already has in the store: none when the id is new.\<close>

definition prior_artifacts :: "Store \<Rightarrow> string \<Rightarrow> Artifact list" where
  "prior_artifacts s tid = (case tasks s tid of None \<Rightarrow> [] | Some t \<Rightarrow> artifacts t)"

text \<open>
  The task as the upsert of \<^verbatim>\<open>on_send_task\<close> leaves it, the task and the store as the
  transition to WORKING leaves them.
\<close>

definition upserted_task :: "Store \<Rightarrow> TaskSendParams \<Rightarrow> Task" where
  "upserted_task s p =
     (case tasks s (params_id p) of
        Some t \<Rightarrow> t
      | None \<Rightarrow> \<lparr>task_id = params_id p, sessionId = params_sessionId p,
                  status = \<lparr>state = SUBMITTED, message = None\<rparr>,
                  artifacts = [], history = []\<rparr>)"

definition working_task :: "Store \<Rightarrow> TaskSendParams \<Rightarrow> Task" where
  "working_task s p =
     (upserted_task s p)\<lparr>status := \<lparr>state = WORKING, message = None\<rparr>,
        history := history (upserted_task s p) @ [status (upserted_task s p)]\<rparr>"

definition working_store :: "Store \<Rightarrow> TaskSendParams \<Rightarrow> Store" where
  "working_store s p =
     snd (update_store (snd (upsert_task s p)) (params_id p)
            \<lparr>state = WORKING, message = None\<rparr> None)"

text \<open>The event queue of a task accepts events: there is none, or it is not closed.\<close>

definition queue_open :: "Store \<Rightarrow> string \<Rightarrow> bool" where
  "queue_open s tid =
     (case task_sse_subscribers s tid of None \<Rightarrow> True | Some q \<Rightarrow> \<not> queue_closed q)"

text \<open>
  The states the managers write, and the states a stored task can then be in. The
  invariant speaks of every recorded call of \<^verbatim>\<open>update_store\<close> and of every stored task.
\<close>

definition written_state_allowed :: "Effect \<Rightarrow> bool" where
  "written_state_allowed e =
     (case e of
        UpdateStore tid st arts \<Rightarrow> state st \<in> {WORKING, INPUT_REQUIRED, COMPLETED}
      | _ \<Rightarrow> True)"

definition stored_states_allowed :: "Store \<Rightarrow> bool" where
  "stored_states_allowed s =
     (\<forall>tid t. tasks s tid = Some t \<longrightarrow>
        state (status t) \<in> {SUBMITTED, WORKING, INPUT_REQUIRED, COMPLETED})"

definition store_invariant :: "Store \<Rightarrow> bool" where
  "store_invariant s = (stored_states_allowed s \<and> list_all written_state_allowed (calls s))"

text \<open>The last \<open>n\<close> entries of a history; all of it when no length is requested.\<close>

definition truncated :: "nat option \<Rightarrow> 'a list \<Rightarrow> 'a list" where
  "truncated n h = (case n of None \<Rightarrow> h | Some k \<Rightarrow> drop (length h - k) h)"

section \<open>Rejections of the synchronous handler (claim C5)\<close>

lemma validate_incompatible:
  "\<not> are_modalities_compatible (acceptedOutputModes (params request)) supported \<Longrightarrow>
   validate_request_for supported request = Some (new_incompatible_types_error (request_id request))"
  by (simp add: validate_request_for_def)

lemma validate_missing_url:
  "are_modalities_compatible (acceptedOutputModes (params request)) supported \<Longrightarrow>
   pushNotification (params request) = Some cfg \<Longrightarrow> url cfg = [] \<Longrightarrow>
   validate_request_for supported request =
     Some \<lparr>response_id = request_id request, result = None,
           error = Some (InvalidParamsError ''Push notification URL is missing'')\<rparr>"
  by (simp add: validate_request_for_def)

lemma validate_ok:
  "are_modalities_compatible (acceptedOutputModes (params request)) supported \<Longrightarrow>
   pushNotification (params request) = Some cfg \<Longrightarrow> url cfg \<noteq> [] \<Longrightarrow>
   validate_request_for supported request = None"
  by (simp add: validate_request_for_def)

text \<open>
  Claim C5. Whenever \<^verbatim>\<open>on_send_task\<close> rejects a request (output modes that do not
  intersect the supported content types, a push-notification config with an empty URL, a
  push URL that fails verification) it returns the corresponding error and the store is
  the one it started from: no task created or changed, no push config kept, and no call
  to the store recorded. This holds for both managers.
\<close>

theorem on_send_task_rejects_before_any_store_call:
  "(\<not> are_modalities_compatible (acceptedOutputModes (params request))
        (SUPPORTED_CONTENT_TYPES (agent m)) \<longrightarrow>
      on_send_task m s request =
        (Inr \<lparr>response_id = request_id request, result = None,
              error = Some IncompatibleTypesError\<rparr>, s))
   \<and> (are_modalities_compatible (acceptedOutputModes (params request))
        (SUPPORTED_CONTENT_TYPES (agent m)) \<and>
      pushNotification (params request) = Some cfg \<and> url cfg = [] \<longrightarrow>
      on_send_task m s request =
        (Inr \<lparr>response_id = request_id request, result = None,
              error = Some (InvalidParamsError ''Push notification URL is missing'')\<rparr>, s))
   \<and> (are_modalities_compatible (acceptedOutputModes (params request))
        (SUPPORTED_CONTENT_TYPES (agent m)) \<and>
      pushNotification (params request) = Some cfg \<and> url cfg \<noteq> [] \<and>
      notification_sender_auth m = Some auth \<and>
      \<not> verify_push_notification_url auth (url cfg) \<longrightarrow>
      on_send_task m s request =
        (Inr \<lparr>response_id = request_id request, result = None,
              error = Some (InvalidParamsError ''Push notification URL is invalid'')\<rparr>, s))
   \<and> (\<not> are_modalities_compatible (acceptedOutputModes (params request))
        MathAgent_SUPPORTED_CONTENT_TYPES \<longrightarrow>
      Math_on_send_task mm s request =
        (Inr \<lparr>response_id = request_id request, result = None,
              error = Some IncompatibleTypesError\<rparr>, s))
   \<and> (are_modalities_compatible (acceptedOutputModes (params request))
        MathAgent_SUPPORTED_CONTENT_TYPES \<and>
      pushNotification (params request) = Some cfg \<and> url cfg = [] \<longrightarrow>
      Math_on_send_task mm s request =
        (Inr \<lparr>response_id = request_id request, result = None,
              error = Some (InvalidParamsError ''Push notification URL is missing'')\<rparr>, s))
   \<and> (are_modalities_compatible (acceptedOutputModes (params request))
        MathAgent_SUPPORTED_CONTENT_TYPES \<and>
      pushNotification (params request) = Some cfg \<and> url cfg \<noteq> [] \<and>
      \<not> verify_push_notification_url (math_notification_sender_auth mm) (url cfg) \<longrightarrow>
      Math_on_send_task mm s request =
        (Inr \<lparr>response_id = request_id request, result = None,
              error = Some (InvalidParamsError ''Push notification URL is invalid'')\<rparr>, s))"
proof (intro conjI impI)
  show "on_send_task m s request =
        (Inr \<lparr>response_id = request_id request, result = None,
              error = Some IncompatibleTypesError\<rparr>, s)"
    if "\<not> are_modalities_compatible (acceptedOutputModes (params request))
          (SUPPORTED_CONTENT_TYPES (agent m))"
    using validate_incompatible [OF that]
    by (simp add: on_send_task_def validate_request_def new_incompatible_types_error_def)
next
  assume a: "are_modalities_compatible (acceptedOutputModes (params request))
        (SUPPORTED_CONTENT_TYPES (agent m)) \<and>
      pushNotification (params request) = Some cfg \<and> url cfg = []"
  then show "on_send_task m s request =
        (Inr \<lparr>response_id = request_id request, result = None,
              error = Some (InvalidParamsError ''Push notification URL is missing'')\<rparr>, s)"
    using validate_missing_url [of request "SUPPORTED_CONTENT_TYPES (agent m)" cfg]
    by (simp add: on_send_task_def validate_request_def)
next
  assume a: "are_modalities_compatible (acceptedOutputModes (params request))
        (SUPPORTED_CONTENT_TYPES (agent m)) \<and>
      pushNotification (params request) = Some cfg \<and> url cfg \<noteq> [] \<and>
      notification_sender_auth m = Some auth \<and>
      \<not> verify_push_notification_url auth (url cfg)"
  then show "on_send_task m s request =
        (Inr \<lparr>response_id = request_id request, result = None,
              error = Some (InvalidParamsError ''Push notification URL is invalid'')\<rparr>, s)"
    using validate_ok [of request "SUPPORTED_CONTENT_TYPES (agent m)" cfg]
    by (simp add: on_send_task_def validate_request_def set_push_notification_info_def
        register_push_notification_def)
next
  show "Math_on_send_task mm s request =
        (Inr \<lparr>response_id = request_id request, result = None,
              error = Some IncompatibleTypesError\<rparr>, s)"
    if "\<not> are_modalities_compatible (acceptedOutputModes (params request))
          MathAgent_SUPPORTED_CONTENT_TYPES"
    using validate_incompatible [OF that]
    by (simp add: Math_on_send_task_def Math_validate_request_def new_incompatible_types_error_def)
next
  assume a: "are_modalities_compatible (acceptedOutputModes (params request))
        MathAgent_SUPPORTED_CONTENT_TYPES \<and>
      pushNotification (params request) = Some cfg \<and> url cfg = []"
  then show "Math_on_send_task mm s request =
        (Inr \<lparr>response_id = request_id request, result = None,
              error = Some (InvalidParamsError ''Push notification URL is missing'')\<rparr>, s)"
    using validate_missing_url [of request MathAgent_SUPPORTED_CONTENT_TYPES cfg]
    by (simp add: Math_on_send_task_def Math_validate_request_def)
next
  assume a: "are_modalities_compatible (acceptedOutputModes (params request))
        MathAgent_SUPPORTED_CONTENT_TYPES \<and>
      pushNotification (params request) = Some cfg \<and> url cfg \<noteq> [] \<and>
      \<not> verify_push_notification_url (math_notification_sender_auth mm) (url cfg)"
  then show "Math_on_send_task mm s request =
        (Inr \<lparr>response_id = request_id request, result = None,
              error = Some (InvalidParamsError ''Push notification URL is invalid'')\<rparr>, s)"
    using validate_ok [of request MathAgent_SUPPORTED_CONTENT_TYPES cfg]
    by (simp add: Math_on_send_task_def Math_validate_request_def
        Math_set_push_notification_info_def Math_register_push_notification_def)
qed


text \<open>The definitions of the example inputs, for evaluation.\<close>

lemmas example_defs =
  empty_store_def answering_agent_def asking_agent_def failing_agent_def rejecting_auth_def
  accepting_auth_def text_params_def text_request_def file_request_def empty_request_def
  push_request_def image_request_def no_url_request_def guarded_manager_def
  guarded_math_manager_def

text \<open>Claim C5 at concrete requests: one for each of the three rejections.\<close>

theorem on_send_task_rejects_witness:
  "on_send_task (guarded_manager answering_agent) empty_store image_request =
     (Inr \<lparr>response_id = 5, result = None, error = Some IncompatibleTypesError\<rparr>, empty_store)
   \<and> on_send_task (guarded_manager answering_agent) empty_store no_url_request =
     (Inr \<lparr>response_id = 6, result = None,
           error = Some (InvalidParamsError ''Push notification URL is missing'')\<rparr>, empty_store)
   \<and> on_send_task (guarded_manager answering_agent) empty_store push_request =
     (Inr \<lparr>response_id = 4, result = None,
           error = Some (InvalidParamsError ''Push notification URL is invalid'')\<rparr>, empty_store)
   \<and> Math_on_send_task (guarded_math_manager answering_agent) empty_store image_request =
     (Inr \<lparr>response_id = 5, result = None, error = Some IncompatibleTypesError\<rparr>, empty_store)
   \<and> Math_on_send_task (guarded_math_manager answering_agent) empty_store no_url_request =
     (Inr \<lparr>response_id = 6, result = None,
           error = Some (InvalidParamsError ''Push notification URL is missing'')\<rparr>, empty_store)
   \<and> Math_on_send_task (guarded_math_manager answering_agent) empty_store push_request =
     (Inr \<lparr>response_id = 4, result = None,
           error = Some (InvalidParamsError ''Push notification URL is invalid'')\<rparr>, empty_store)"
proof -
  have incompatible:
    "\<not> are_modalities_compatible (acceptedOutputModes (params image_request))
         (SUPPORTED_CONTENT_TYPES (agent (guarded_manager answering_agent)))"
    "\<not> are_modalities_compatible (acceptedOutputModes (params image_request))
         MathAgent_SUPPORTED_CONTENT_TYPES"
    by (simp_all add: example_defs are_modalities_compatible_def
        MathAgent_SUPPORTED_CONTENT_TYPES_def)
  have missing:
    "are_modalities_compatible (acceptedOutputModes (params no_url_request))
       (SUPPORTED_CONTENT_TYPES (agent (guarded_manager answering_agent)))
     \<and> pushNotification (params no_url_request) = Some \<lparr>url = []\<rparr> \<and> url \<lparr>url = []\<rparr> = []"
    "are_modalities_compatible (acceptedOutputModes (params no_url_request))
       MathAgent_SUPPORTED_CONTENT_TYPES
     \<and> pushNotification (params no_url_request) = Some \<lparr>url = []\<rparr> \<and> url \<lparr>url = []\<rparr> = []"
    by (simp_all add: example_defs are_modalities_compatible_def
        MathAgent_SUPPORTED_CONTENT_TYPES_def)
  have unverified:
    "are_modalities_compatible (acceptedOutputModes (params push_request))
       (SUPPORTED_CONTENT_TYPES (agent (guarded_manager answering_agent)))
     \<and> pushNotification (params push_request) = Some \<lparr>url = ''http://unreachable''\<rparr>
     \<and> url \<lparr>url = ''http://unreachable''\<rparr> \<noteq> []
     \<and> notification_sender_auth (guarded_manager answering_agent) = Some rejecting_auth
     \<and> \<not> verify_push_notification_url rejecting_auth (url \<lparr>url = ''http://unreachable''\<rparr>)"
    "are_modalities_compatible (acceptedOutputModes (params push_request))
       MathAgent_SUPPORTED_CONTENT_TYPES
     \<and> pushNotification (params push_request) = Some \<lparr>url = ''http://unreachable''\<rparr>
     \<and> url \<lparr>url = ''http://unreachable''\<rparr> \<noteq> []
     \<and> \<not> verify_push_notification_url
           (math_notification_sender_auth (guarded_math_manager answering_agent))
           (url \<lparr>url = ''http://unreachable''\<rparr>)"
    by (simp_all add: example_defs are_modalities_compatible_def
        MathAgent_SUPPORTED_CONTENT_TYPES_def)
  note r1 = on_send_task_rejects_before_any_store_call
    [of image_request "guarded_manager answering_agent" empty_store "\<lparr>url = []\<rparr>"
        rejecting_auth "guarded_math_manager answering_agent"]
  note r2 = on_send_task_rejects_before_any_store_call
    [of no_url_request "guarded_manager answering_agent" empty_store "\<lparr>url = []\<rparr>"
        rejecting_auth "guarded_math_manager answering_agent"]
  note r3 = on_send_task_rejects_before_any_store_call
    [of push_request "guarded_manager answering_agent" empty_store
        "\<lparr>url = ''http://unreachable''\<rparr>"
        rejecting_auth "guarded_math_manager answering_agent"]
  have ids: "request_id image_request = 5" "request_id no_url_request = 6"
    "request_id push_request = 4"
    by (simp_all add: example_defs)
  show ?thesis
    using r1 r2 r3 incompatible missing unverified ids by simp
qed

section \<open>Rejections of the streaming handler (claim C6)\<close>

lemma upsert_task_creates:
  "tasks (snd (upsert_task s p)) (params_id p) =
     (case tasks s (params_id p) of
        Some t \<Rightarrow> Some t
      | None \<Rightarrow> Some \<lparr>task_id = params_id p, sessionId = params_sessionId p,
                       status = \<lparr>state = SUBMITTED, message = None\<rparr>,
                       artifacts = [], history = []\<rparr>)"
  by (simp add: upsert_task_def record_call_def Let_def split: option.splits)

lemma upsert_task_others:
  "push_notification_infos (snd (upsert_task s p)) = push_notification_infos s"
  "task_sse_subscribers (snd (upsert_task s p)) = task_sse_subscribers s"
  "calls (snd (upsert_task s p)) = calls s @ [UpsertTask (params_id p)]"
  by (simp_all add: upsert_task_def record_call_def Let_def split: option.splits)

text \<open>
  Claim C6 says that \<^verbatim>\<open>on_send_task_subscribe\<close> verifies the push URL before it
  upserts the task, so that a failed verification leaves no task behind. Both managers
  upsert first: with an unverifiable URL and an empty store the request is rejected and the
  task exists afterwards, in state SUBMITTED.
\<close>

theorem subscribe_unverified_push_counterexample:
  "fst (on_send_task_subscribe (guarded_manager answering_agent) empty_store push_request) =
     ErrorResponse \<lparr>response_id = 4, result = None,
       error = Some (InvalidParamsError ''Push notification URL is invalid'')\<rparr>
   \<and> tasks empty_store ''t1'' = None
   \<and> tasks (snd (on_send_task_subscribe (guarded_manager answering_agent) empty_store
                  push_request)) ''t1'' =
       Some \<lparr>task_id = ''t1'', sessionId = ''s1'',
             status = \<lparr>state = SUBMITTED, message = None\<rparr>, artifacts = [], history = []\<rparr>
   \<and> fst (Math_on_send_task_subscribe (guarded_math_manager answering_agent) empty_store
            push_request) =
     ErrorResponse \<lparr>response_id = 4, result = None,
       error = Some (InvalidParamsError ''Push notification URL is invalid'')\<rparr>
   \<and> tasks (snd (Math_on_send_task_subscribe (guarded_math_manager answering_agent) empty_store
                  push_request)) ''t1'' =
       Some \<lparr>task_id = ''t1'', sessionId = ''s1'',
             status = \<lparr>state = SUBMITTED, message = None\<rparr>, artifacts = [], history = []\<rparr>"
  by (simp add: example_defs on_send_task_subscribe_def Math_on_send_task_subscribe_def
      validate_request_def Math_validate_request_def validate_request_for_def
      are_modalities_compatible_def MathAgent_SUPPORTED_CONTENT_TYPES_def
      register_push_notification_def Math_register_push_notification_def
      set_push_notification_info_def Math_set_push_notification_info_def
      upsert_task_def record_call_def Let_def)

text \<open>
  Claim C6, amended. \<^verbatim>\<open>on_send_task_subscribe\<close> performs the same validation as
  \<^verbatim>\<open>on_send_task\<close> and a validation error leaves the store untouched; after
  validation it upserts the task and only then verifies the push URL. When the
  verification fails the request is rejected with InvalidParams, no push config is kept,
  and the store is the one the upsert left: the task exists.
\<close>

theorem subscribe_upserts_before_verifying:
  "(validate_request m request = Some err \<longrightarrow>
      on_send_task_subscribe m s request = (ErrorResponse err, s))
   \<and> (validate_request m request = None \<and> pushNotification (params request) = Some cfg \<and>
      notification_sender_auth m = Some auth \<and>
      \<not> verify_push_notification_url auth (url cfg) \<longrightarrow>
      on_send_task_subscribe m s request =
        (ErrorResponse \<lparr>response_id = request_id request, result = None,
           error = Some (InvalidParamsError ''Push notification URL is invalid'')\<rparr>,
         snd (upsert_task s (params request)))
      \<and> push_notification_infos (snd (on_send_task_subscribe m s request)) =
          push_notification_infos s
      \<and> tasks (snd (on_send_task_subscribe m s request)) (params_id (params request)) \<noteq> None)
   \<and> (Math_validate_request request = Some err \<longrightarrow>
      Math_on_send_task_subscribe mm s request = (ErrorResponse err, s))
   \<and> (Math_validate_request request = None \<and> pushNotification (params request) = Some cfg \<and>
      \<not> verify_push_notification_url (math_notification_sender_auth mm) (url cfg) \<longrightarrow>
      Math_on_send_task_subscribe mm s request =
        (ErrorResponse \<lparr>response_id = request_id request, result = None,
           error = Some (InvalidParamsError ''Push notification URL is invalid'')\<rparr>,
         snd (upsert_task s (params request)))
      \<and> push_notification_infos (snd (Math_on_send_task_subscribe mm s request)) =
          push_notification_infos s
      \<and> tasks (snd (Math_on_send_task_subscribe mm s request)) (params_id (params request))
          \<noteq> None)"
proof -
  have created: "tasks (snd (upsert_task s (params request))) (params_id (params request)) \<noteq> None"
    by (simp add: upsert_task_creates split: option.splits)
  have a: "on_send_task_subscribe m s request =
        (ErrorResponse \<lparr>response_id = request_id request, result = None,
           error = Some (InvalidParamsError ''Push notification URL is invalid'')\<rparr>,
         snd (upsert_task s (params request)))"
    if "validate_request m request = None" "pushNotification (params request) = Some cfg"
       "notification_sender_auth m = Some auth" "\<not> verify_push_notification_url auth (url cfg)"
    using that
    by (simp add: on_send_task_subscribe_def register_push_notification_def
        set_push_notification_info_def split_beta)
  have b: "Math_on_send_task_subscribe mm s request =
        (ErrorResponse \<lparr>response_id = request_id request, result = None,
           error = Some (InvalidParamsError ''Push notification URL is invalid'')\<rparr>,
         snd (upsert_task s (params request)))"
    if "Math_validate_request request = None" "pushNotification (params request) = Some cfg"
       "\<not> verify_push_notification_url (math_notification_sender_auth mm) (url cfg)"
    using that
    by (simp add: Math_on_send_task_subscribe_def Math_register_push_notification_def
        Math_set_push_notification_info_def split_beta)
  show ?thesis
    using a b created
    by (simp add: on_send_task_subscribe_def Math_on_send_task_subscribe_def upsert_task_others)
qed

text \<open>Claim C6, amended, at a request that fails validation and at one that fails verification.\<close>

theorem subscribe_upserts_before_verifying_witness:
  "on_send_task_subscribe (guarded_manager answering_agent) empty_store image_request =
     (ErrorResponse \<lparr>response_id = 5, result = None, error = Some IncompatibleTypesError\<rparr>,
      empty_store)
   \<and> on_send_task_subscribe (guarded_manager answering_agent) empty_store push_request =
     (ErrorResponse \<lparr>response_id = 4, result = None,
        error = Some (InvalidParamsError ''Push notification URL is invalid'')\<rparr>,
      snd (upsert_task empty_store (text_params\<lparr>pushNotification :=
             Some \<lparr>url = ''http://unreachable''\<rparr>\<rparr>)))
   \<and> Math_on_send_task_subscribe (guarded_math_manager answering_agent) empty_store
       image_request =
     (ErrorResponse \<lparr>response_id = 5, result = None, error = Some IncompatibleTypesError\<rparr>,
      empty_store)
   \<and> Math_on_send_task_subscribe (guarded_math_manager answering_agent) empty_store
       push_request =
     (ErrorResponse \<lparr>response_id = 4, result = None,
        error = Some (InvalidParamsError ''Push notification URL is invalid'')\<rparr>,
      snd (upsert_task empty_store (text_params\<lparr>pushNotification :=
             Some \<lparr>url = ''http://unreachable''\<rparr>\<rparr>)))"
proof -
  have invalid:
    "validate_request (guarded_manager answering_agent) image_request =
       Some \<lparr>response_id = 5, result = None, error = Some IncompatibleTypesError\<rparr>"
    "Math_validate_request image_request =
       Some \<lparr>response_id = 5, result = None, error = Some IncompatibleTypesError\<rparr>"
    by (simp_all add: example_defs validate_request_def Math_validate_request_def
        validate_request_for_def are_modalities_compatible_def
        MathAgent_SUPPORTED_CONTENT_TYPES_def new_incompatible_types_error_def)
  have unverified:
    "validate_request (guarded_manager answering_agent) push_request = None
     \<and> pushNotification (params push_request) = Some \<lparr>url = ''http://unreachable''\<rparr>
     \<and> notification_sender_auth (guarded_manager answering_agent) = Some rejecting_auth
     \<and> \<not> verify_push_notification_url rejecting_auth (url \<lparr>url = ''http://unreachable''\<rparr>)"
    "Math_validate_request push_request = None
     \<and> pushNotification (params push_request) = Some \<lparr>url = ''http://unreachable''\<rparr>
     \<and> \<not> verify_push_notification_url
           (math_notification_sender_auth (guarded_math_manager answering_agent))
           (url \<lparr>url = ''http://unreachable''\<rparr>)"
    by (simp_all add: example_defs validate_request_def Math_validate_request_def
        validate_request_for_def are_modalities_compatible_def
        MathAgent_SUPPORTED_CONTENT_TYPES_def)
  note r1 = subscribe_upserts_before_verifying
    [of "guarded_manager answering_agent" image_request
        "\<lparr>response_id = 5, result = None, error = Some IncompatibleTypesError\<rparr>" empty_store
        "\<lparr>url = ''http://unreachable''\<rparr>" rejecting_auth "guarded_math_manager answering_agent"]
  note r2 = subscribe_upserts_before_verifying
    [of "guarded_manager answering_agent" push_request
        "\<lparr>response_id = 5, result = None, error = Some IncompatibleTypesError\<rparr>" empty_store
        "\<lparr>url = ''http://unreachable''\<rparr>" rejecting_auth "guarded_math_manager answering_agent"]
  have ps: "request_id push_request = 4"
    "params push_request = text_params\<lparr>pushNotification :=
             Some \<lparr>url = ''http://unreachable''\<rparr>\<rparr>"
    by (simp_all add: push_request_def)
  show ?thesis
    using r1 r2 invalid unverified ps by simp
qed

section \<open>The synchronous handler up to the agent call\<close>

text \<open>
  The store after the first steps of \<^verbatim>\<open>on_send_task\<close>: the upsert, the transition to
  WORKING and the notification.
\<close>

lemma update_store_known:
  "tasks s tid = Some t \<Longrightarrow>
   update_store s tid st arts =
     (Inr (t\<lparr>status := st,
             artifacts := artifacts t @ (case arts of None \<Rightarrow> [] | Some as \<Rightarrow> as),
             history := history t @ [status t]\<rparr>),
      s\<lparr>calls := calls s @ [UpdateStore tid st arts],
        tasks := (tasks s)(tid \<mapsto> t\<lparr>status := st,
             artifacts := artifacts t @ (case arts of None \<Rightarrow> [] | Some as \<Rightarrow> as),
             history := history t @ [status t]\<rparr>)\<rparr>)"
  by (simp add: update_store_def record_call_def Let_def)

lemma update_store_unknown:
  "tasks s tid = None \<Longrightarrow>
   update_store s tid st arts =
     (Inl (NotFoundError tid), s\<lparr>calls := calls s @ [UpdateStore tid st arts]\<rparr>)"
  by (simp add: update_store_def record_call_def Let_def)

lemma send_task_notification_fields:
  "tasks (send_task_notification m s t) = tasks s"
  "push_notification_infos (send_task_notification m s t) = push_notification_infos s"
  "task_sse_subscribers (send_task_notification m s t) = task_sse_subscribers s"
  by (simp_all add: send_task_notification_def send_push_notification_def record_call_def
      split: option.splits)

lemma Math_send_task_notification_fields:
  "tasks (Math_send_task_notification m s t) = tasks s"
  "push_notification_infos (Math_send_task_notification m s t) = push_notification_infos s"
  "task_sse_subscribers (Math_send_task_notification m s t) = task_sse_subscribers s"
  by (simp_all add: Math_send_task_notification_def send_push_notification_def record_call_def
      split: option.splits)

text \<open>The notification records at most one call, a push, and nothing else.\<close>

lemma send_task_notification_calls:
  "\<exists>pushes. calls (send_task_notification m s t) = calls s @ pushes \<and> list_all is_push pushes"
  by (simp add: send_task_notification_def send_push_notification_def record_call_def
      is_push_def split: option.splits)

lemma Math_send_task_notification_calls:
  "\<exists>pushes. calls (Math_send_task_notification m s t) = calls s @ pushes
     \<and> list_all is_push pushes"
  by (simp add: Math_send_task_notification_def send_push_notification_def record_call_def
      is_push_def split: option.splits)

lemma upsert_then_working:
  "update_store (snd (upsert_task s p)) (params_id p) \<lparr>state = WORKING, message = None\<rparr> None =
     (Inr (working_task s p),
      (snd (upsert_task s p))
        \<lparr>calls := calls s @ [UpsertTask (params_id p),
                             UpdateStore (params_id p) \<lparr>state = WORKING, message = None\<rparr> None],
         tasks := (tasks (snd (upsert_task s p)))(params_id p \<mapsto> working_task s p)\<rparr>)"
proof -
  have "tasks (snd (upsert_task s p)) (params_id p) = Some (upserted_task s p)"
    by (simp add: upsert_task_creates upserted_task_def split: option.splits)
  from update_store_known [OF this] show ?thesis
    by (simp add: working_task_def upsert_task_others)
qed

lemma working_store_eq:
  "working_store s p =
     (snd (upsert_task s p))
        \<lparr>calls := calls s @ [UpsertTask (params_id p),
                             UpdateStore (params_id p) \<lparr>state = WORKING, message = None\<rparr> None],
         tasks := (tasks (snd (upsert_task s p)))(params_id p \<mapsto> working_task s p)\<rparr>"
  by (simp add: working_store_def upsert_then_working)

lemma working_store_fields:
  "tasks (working_store s p) (params_id p) = Some (working_task s p)"
  "push_notification_infos (working_store s p) = push_notification_infos s"
  "task_sse_subscribers (working_store s p) = task_sse_subscribers s"
  "calls (working_store s p) =
     calls s @ [UpsertTask (params_id p),
                UpdateStore (params_id p) \<lparr>state = WORKING, message = None\<rparr> None]"
  by (simp_all add: working_store_eq upsert_task_others)

lemma working_task_state: "state (status (working_task s p)) = WORKING"
  by (simp add: working_task_def)

text \<open>\<^verbatim>\<open>on_send_task\<close> once the request has been validated and the push target registered.\<close>

lemma on_send_task_accepted:
  assumes "validate_request m request = None"
    and "register_push_notification m s request = (True, s1)"
  shows "on_send_task m s request =
     (let s4 = send_task_notification m (working_store s1 (params request))
                 (working_task s1 (params request))
      in case get_user_query (params request) of
           Inl e \<Rightarrow> (Inl e, s4)
         | Inr query \<Rightarrow>
             (case invoke (agent m) query (params_sessionId (params request)) of
                Inl e \<Rightarrow>
                  (Inr \<lparr>response_id = request_id request, result = None,
                        error = Some (InternalError
                          (''Error invoking agent: '' @ exn_str e))\<rparr>, s4)
              | Inr agent_response \<Rightarrow>
                  (case process_agent_response m s4 request agent_response of
                     (Inl e, s5) \<Rightarrow>
                       (Inr \<lparr>response_id = request_id request, result = None,
                             error = Some (InternalError
                               (''Error invoking agent: '' @ exn_str e))\<rparr>, s5)
                   | (Inr response, s5) \<Rightarrow> (Inr response, s5))))"
  using assms
  by (simp add: on_send_task_def split_beta upsert_then_working working_store_def Let_def)

lemma Math_on_send_task_accepted:
  assumes "Math_validate_request request = None"
    and "Math_register_push_notification m s request = (True, s1)"
  shows "Math_on_send_task m s request =
     (let s4 = Math_send_task_notification m (working_store s1 (params request))
                 (working_task s1 (params request))
      in case get_user_query (params request) of
           Inl e \<Rightarrow> (Inl e, s4)
         | Inr query \<Rightarrow>
             (case invoke (math_agent m) query (params_sessionId (params request)) of
                Inl e \<Rightarrow> (Inl (ValueError (''Error invoking agent: '' @ exn_str e)), s4)
              | Inr agent_response \<Rightarrow>
                  Math_process_agent_response m s4 request agent_response))"
  using assms
  by (simp add: Math_on_send_task_def split_beta upsert_then_working working_store_def Let_def)

section \<open>Content errors of the synchronous handler (claim C7)\<close>

lemma get_user_query_no_text:
  "\<forall>t rest. parts (params_message p) \<noteq> TextPart t # rest \<Longrightarrow>
   get_user_query p =
     Inl (if parts (params_message p) = [] then IndexError
          else ValueError ''Only text parts are supported'')"
  by (simp add: get_user_query_def split: list.splits Part.splits)

lemmas handler_defs =
  on_send_task_def Math_on_send_task_def validate_request_def Math_validate_request_def
  validate_request_for_def are_modalities_compatible_def MathAgent_SUPPORTED_CONTENT_TYPES_def
  register_push_notification_def Math_register_push_notification_def
  set_push_notification_info_def Math_set_push_notification_info_def
  base_set_push_notification_info_def upsert_task_def update_store_def record_call_def
  send_task_notification_def Math_send_task_notification_def has_push_notification_info_def
  get_push_notification_info_def send_push_notification_def get_user_query_def
  process_agent_response_def Math_process_agent_response_def append_task_history_def
  new_incompatible_types_error_def

text \<open>
  Claim C7 says that a request whose message is empty or starts with a part that is not
  text gets an InternalError response and that no exception leaves the handler. In both
  managers the query is extracted before the \<^verbatim>\<open>try\<close>: the exception leaves
  \<^verbatim>\<open>on_send_task\<close>.
\<close>

theorem content_error_escapes_counterexample:
  "fst (on_send_task (guarded_manager answering_agent) empty_store file_request) =
     Inl (ValueError ''Only text parts are supported'')
   \<and> fst (on_send_task (guarded_manager answering_agent) empty_store empty_request) =
     Inl IndexError
   \<and> fst (Math_on_send_task (guarded_math_manager answering_agent) empty_store file_request) =
     Inl (ValueError ''Only text parts are supported'')
   \<and> fst (Math_on_send_task (guarded_math_manager answering_agent) empty_store empty_request) =
     Inl IndexError"
  by (simp add: example_defs handler_defs Let_def)

text \<open>
  Claim C7, amended. For a request that passes validation and push registration and whose
  message is empty or starts with a part that is not text, \<^verbatim>\<open>on_send_task\<close> raises the
  content error (IndexError for the empty message, ValueError otherwise) to its caller; by
  then the task has been upserted and set to WORKING, and it stays so.
\<close>

theorem content_error_propagates:
  "(validate_request m request = None \<and> fst (register_push_notification m s request) \<and>
      (\<forall>t rest. parts (params_message (params request)) \<noteq> TextPart t # rest) \<longrightarrow>
      fst (on_send_task m s request) =
        Inl (if parts (params_message (params request)) = [] then IndexError
             else ValueError ''Only text parts are supported'')
      \<and> (\<exists>t. tasks (snd (on_send_task m s request)) (params_id (params request)) = Some t
             \<and> state (status t) = WORKING))
   \<and> (Math_validate_request request = None \<and>
      fst (Math_register_push_notification mm s request) \<and>
      (\<forall>t rest. parts (params_message (params request)) \<noteq> TextPart t # rest) \<longrightarrow>
      fst (Math_on_send_task mm s request) =
        Inl (if parts (params_message (params request)) = [] then IndexError
             else ValueError ''Only text parts are supported'')
      \<and> (\<exists>t. tasks (snd (Math_on_send_task mm s request)) (params_id (params request)) = Some t
             \<and> state (status t) = WORKING))"
proof (intro conjI impI)
  assume a: "validate_request m request = None \<and> fst (register_push_notification m s request)
    \<and> (\<forall>t rest. parts (params_message (params request)) \<noteq> TextPart t # rest)"
  then have r: "register_push_notification m s request =
      (True, snd (register_push_notification m s request))"
    by (cases "register_push_notification m s request") simp
  from a have q: "get_user_query (params request) =
     Inl (if parts (params_message (params request)) = [] then IndexError
          else ValueError ''Only text parts are supported'')"
    using get_user_query_no_text by blast
  from a have v: "validate_request m request = None" by simp
  show "fst (on_send_task m s request) =
        Inl (if parts (params_message (params request)) = [] then IndexError
             else ValueError ''Only text parts are supported'')"
    by (simp add: on_send_task_accepted [OF v r] q Let_def)
  show "\<exists>t. tasks (snd (on_send_task m s request)) (params_id (params request)) = Some t
             \<and> state (status t) = WORKING"
    by (simp add: on_send_task_accepted [OF v r] q Let_def send_task_notification_fields
        working_store_fields working_task_state)
next
  assume a: "Math_validate_request request = None \<and>
      fst (Math_register_push_notification mm s request) \<and>
      (\<forall>t rest. parts (params_message (params request)) \<noteq> TextPart t # rest)"
  then have r: "Math_register_push_notification mm s request =
      (True, snd (Math_register_push_notification mm s request))"
    by (cases "Math_register_push_notification mm s request") simp
  from a have q: "get_user_query (params request) =
     Inl (if parts (params_message (params request)) = [] then IndexError
          else ValueError ''Only text parts are supported'')"
    using get_user_query_no_text by blast
  from a have v: "Math_validate_request request = None" by simp
  show "fst (Math_on_send_task mm s request) =
        Inl (if parts (params_message (params request)) = [] then IndexError
             else ValueError ''Only text parts are supported'')"
    by (simp add: Math_on_send_task_accepted [OF v r] q Let_def)
  show "\<exists>t. tasks (snd (Math_on_send_task mm s request)) (params_id (params request)) = Some t
             \<and> state (status t) = WORKING"
    by (simp add: Math_on_send_task_accepted [OF v r] q Let_def
        Math_send_task_notification_fields working_store_fields working_task_state)
qed

text \<open>Claim C7, amended, at a request whose only part is a file.\<close>

theorem content_error_propagates_witness:
  "fst (on_send_task (guarded_manager answering_agent) empty_store file_request) =
     Inl (ValueError ''Only text parts are supported'')
   \<and> (\<exists>t. tasks (snd (on_send_task (guarded_manager answering_agent) empty_store file_request))
            ''t1'' = Some t \<and> state (status t) = WORKING)
   \<and> fst (Math_on_send_task (guarded_math_manager answering_agent) empty_store file_request) =
     Inl (ValueError ''Only text parts are supported'')
   \<and> (\<exists>t. tasks (snd (Math_on_send_task (guarded_math_manager answering_agent) empty_store
                       file_request)) ''t1'' = Some t \<and> state (status t) = WORKING)"
proof -
  have h: "validate_request (guarded_manager answering_agent) file_request = None
      \<and> fst (register_push_notification (guarded_manager answering_agent) empty_store
               file_request)
      \<and> (\<forall>t rest. parts (params_message (params file_request)) \<noteq> TextPart t # rest)"
    "Math_validate_request file_request = None
      \<and> fst (Math_register_push_notification (guarded_math_manager answering_agent) empty_store
               file_request)
      \<and> (\<forall>t rest. parts (params_message (params file_request)) \<noteq> TextPart t # rest)"
    by (simp_all add: example_defs handler_defs)
  have p: "parts (params_message (params file_request)) \<noteq> []"
    "params_id (params file_request) = ''t1''"
    by (simp_all add: example_defs)
  show ?thesis
    using content_error_propagates
      [of "guarded_manager answering_agent" file_request empty_store
          "guarded_math_manager answering_agent"] h p
    by simp
qed

section \<open>A failing agent call (claim C1)\<close>

text \<open>
  Claim C1 says that both managers answer a raising agent call with an InternalError
  response and do not propagate the exception. \<^verbatim>\<open>MathAgentTaskManager.on_send_task\<close>
  catches the exception and raises a ValueError in its place.
\<close>

theorem math_invoke_failure_counterexample:
  "fst (Math_on_send_task (guarded_math_manager failing_agent) empty_store text_request) =
     Inl (ValueError ''Error invoking agent: boom'')"
  by (simp add: example_defs handler_defs Let_def)

text \<open>
  Claim C1, amended. When the agent call of a validated and registered request raises,
  \<^verbatim>\<open>AgentTaskManager.on_send_task\<close> returns a response carrying an InternalError, and
  \<^verbatim>\<open>MathAgentTaskManager.on_send_task\<close> raises a ValueError with the same text to its
  caller. In both the stored status of the task remains WORKING, and after the transition
  to WORKING nothing is recorded but the push notification: no further store update.
\<close>

theorem invoke_failure:
  "(validate_request m request = None \<and> fst (register_push_notification m s request) \<and>
      get_user_query (params request) = Inr q \<and>
      invoke (agent m) q (params_sessionId (params request)) = Inl e \<longrightarrow>
      fst (on_send_task m s request) =
        Inr \<lparr>response_id = request_id request, result = None,
              error = Some (InternalError (''Error invoking agent: '' @ exn_str e))\<rparr>
      \<and> (\<exists>t. tasks (snd (on_send_task m s request)) (params_id (params request)) = Some t
             \<and> state (status t) = WORKING)
      \<and> (\<exists>pushes. calls (snd (on_send_task m s request)) =
            calls (snd (register_push_notification m s request)) @
            [UpsertTask (params_id (params request)),
             UpdateStore (params_id (params request)) \<lparr>state = WORKING, message = None\<rparr> None]
            @ pushes \<and> list_all is_push pushes))
   \<and> (Math_validate_request request = None \<and>
      fst (Math_register_push_notification mm s request) \<and>
      get_user_query (params request) = Inr q \<and>
      invoke (math_agent mm) q (params_sessionId (params request)) = Inl e \<longrightarrow>
      fst (Math_on_send_task mm s request) =
        Inl (ValueError (''Error invoking agent: '' @ exn_str e))
      \<and> (\<exists>t. tasks (snd (Math_on_send_task mm s request)) (params_id (params request)) = Some t
             \<and> state (status t) = WORKING)
      \<and> (\<exists>pushes. calls (snd (Math_on_send_task mm s request)) =
            calls (snd (Math_register_push_notification mm s request)) @
            [UpsertTask (params_id (params request)),
             UpdateStore (params_id (params request)) \<lparr>state = WORKING, message = None\<rparr> None]
            @ pushes \<and> list_all is_push pushes))"
proof (intro conjI impI)
  assume a: "validate_request m request = None \<and> fst (register_push_notification m s request)
    \<and> get_user_query (params request) = Inr q
    \<and> invoke (agent m) q (params_sessionId (params request)) = Inl e"
  then have r: "register_push_notification m s request =
      (True, snd (register_push_notification m s request))"
    by (cases "register_push_notification m s request") simp
  from a have v: "validate_request m request = None" by simp
  note eq = on_send_task_accepted [OF v r]
  show "fst (on_send_task m s request) =
        Inr \<lparr>response_id = request_id request, result = None,
              error = Some (InternalError (''Error invoking agent: '' @ exn_str e))\<rparr>"
    using a by (simp add: eq Let_def)
  show "\<exists>t. tasks (snd (on_send_task m s request)) (params_id (params request)) = Some t
             \<and> state (status t) = WORKING"
    using a by (simp add: eq Let_def send_task_notification_fields working_store_fields
        working_task_state)
  show "\<exists>pushes. calls (snd (on_send_task m s request)) =
            calls (snd (register_push_notification m s request)) @
            [UpsertTask (params_id (params request)),
             UpdateStore (params_id (params request)) \<lparr>state = WORKING, message = None\<rparr> None]
            @ pushes \<and> list_all is_push pushes"
    using a send_task_notification_calls
      [of m "working_store (snd (register_push_notification m s request)) (params request)"
          "working_task (snd (register_push_notification m s request)) (params request)"]
    by (auto simp add: eq Let_def working_store_fields)
next
  assume a: "Math_validate_request request = None \<and>
      fst (Math_register_push_notification mm s request) \<and>
      get_user_query (params request) = Inr q \<and>
      invoke (math_agent mm) q (params_sessionId (params request)) = Inl e"
  then have r: "Math_register_push_notification mm s request =
      (True, snd (Math_register_push_notification mm s request))"
    by (cases "Math_register_push_notification mm s request") simp
  from a have v: "Math_validate_request request = None" by simp
  note eq = Math_on_send_task_accepted [OF v r]
  show "fst (Math_on_send_task mm s request) =
        Inl (ValueError (''Error invoking agent: '' @ exn_str e))"
    using a by (simp add: eq Let_def)
  show "\<exists>t. tasks (snd (Math_on_send_task mm s request)) (params_id (params request)) = Some t
             \<and> state (status t) = WORKING"
    using a by (simp add: eq Let_def Math_send_task_notification_fields working_store_fields
        working_task_state)
  show "\<exists>pushes. calls (snd (Math_on_send_task mm s request)) =
            calls (snd (Math_register_push_notification mm s request)) @
            [UpsertTask (params_id (params request)),
             UpdateStore (params_id (params request)) \<lparr>state = WORKING, message = None\<rparr> None]
            @ pushes \<and> list_all is_push pushes"
    using a Math_send_task_notification_calls
      [of mm "working_store (snd (Math_register_push_notification mm s request)) (params request)"
          "working_task (snd (Math_register_push_notification mm s request)) (params request)"]
    by (auto simp add: eq Let_def working_store_fields)
qed

text \<open>Claim C1, amended, at a text request and an agent whose call raises.\<close>

theorem invoke_failure_witness:
  "fst (on_send_task (guarded_manager failing_agent) empty_store text_request) =
     Inr \<lparr>response_id = 1, result = None,
           error = Some (InternalError ''Error invoking agent: boom'')\<rparr>
   \<and> (\<exists>t. tasks (snd (on_send_task (guarded_manager failing_agent) empty_store text_request))
            ''t1'' = Some t \<and> state (status t) = WORKING)
   \<and> fst (Math_on_send_task (guarded_math_manager failing_agent) empty_store text_request) =
     Inl (ValueError ''Error invoking agent: boom'')
   \<and> (\<exists>t. tasks (snd (Math_on_send_task (guarded_math_manager failing_agent) empty_store
                       text_request)) ''t1'' = Some t \<and> state (status t) = WORKING)"
proof -
  have h: "validate_request (guarded_manager failing_agent) text_request = None
      \<and> fst (register_push_notification (guarded_manager failing_agent) empty_store
               text_request)
      \<and> get_user_query (params text_request) = Inr ''2+2''
      \<and> invoke (agent (guarded_manager failing_agent)) ''2+2''
          (params_sessionId (params text_request)) = Inl (AgentError ''boom'')"
    "Math_validate_request text_request = None
      \<and> fst (Math_register_push_notification (guarded_math_manager failing_agent) empty_store
               text_request)
      \<and> get_user_query (params text_request) = Inr ''2+2''
      \<and> invoke (math_agent (guarded_math_manager failing_agent)) ''2+2''
          (params_sessionId (params text_request)) = Inl (AgentError ''boom'')"
    by (simp_all add: example_defs handler_defs)
  have p: "request_id text_request = 1" "params_id (params text_request) = ''t1''"
    by (simp_all add: example_defs)
  show ?thesis
    using invoke_failure
      [of "guarded_manager failing_agent" text_request empty_store "''2+2''"
          "AgentError ''boom''" "guarded_math_manager failing_agent"] h p
    by simp
qed

section \<open>The result of the synchronous handler (claim C8)\<close>








lemmas more_example_defs =
  deciding_agent_def followup_request_def two_part_request_def with_parts_def
  working_store_def working_task_def upserted_task_def prior_artifacts_def truncated_def




section \<open>The states written to the store (claim C9)\<close>

lemma store_invariant_record_call:
  "store_invariant s \<Longrightarrow> written_state_allowed e \<Longrightarrow> store_invariant (record_call e s)"
  by (simp add: store_invariant_def stored_states_allowed_def record_call_def)

lemma store_invariant_upsert_task:
  "store_invariant s \<Longrightarrow> store_invariant (snd (upsert_task s p))"
  by (auto simp add: store_invariant_def stored_states_allowed_def upsert_task_def
      record_call_def written_state_allowed_def Let_def split: option.splits)

lemma store_invariant_update_store:
  "store_invariant s \<Longrightarrow> state st \<in> {WORKING, INPUT_REQUIRED, COMPLETED} \<Longrightarrow>
   store_invariant (snd (update_store s tid st arts))"
  by (auto simp add: store_invariant_def stored_states_allowed_def update_store_def
      record_call_def written_state_allowed_def Let_def split: option.splits)

lemma store_invariant_base_set_push:
  "store_invariant s \<Longrightarrow> store_invariant (base_set_push_notification_info s tid cfg)"
  by (simp add: store_invariant_def stored_states_allowed_def
      base_set_push_notification_info_def record_call_def written_state_allowed_def Let_def)

lemma store_invariant_send_push:
  "store_invariant s \<Longrightarrow> store_invariant (send_push_notification s u t)"
  by (simp add: send_push_notification_def store_invariant_record_call
      written_state_allowed_def)

lemma store_invariant_enqueue:
  "store_invariant s \<Longrightarrow> store_invariant (snd (enqueue_events_for_sse s tid ev))"
  by (simp add: store_invariant_def stored_states_allowed_def enqueue_events_for_sse_def
      record_call_def written_state_allowed_def Let_def split: option.splits)

lemma store_invariant_setup:
  "store_invariant s \<Longrightarrow> store_invariant (snd (setup_sse_consumer s tid resubscribe))"
  by (simp add: store_invariant_def stored_states_allowed_def setup_sse_consumer_def
      record_call_def written_state_allowed_def Let_def split: option.splits)

lemma store_invariant_notification:
  "store_invariant s \<Longrightarrow> store_invariant (send_task_notification m s t)"
  "store_invariant s \<Longrightarrow> store_invariant (Math_send_task_notification mm s t)"
  by (simp_all add: send_task_notification_def Math_send_task_notification_def
      store_invariant_send_push split: option.splits)

lemma store_invariant_register:
  "store_invariant s \<Longrightarrow> store_invariant (snd (register_push_notification m s request))"
  "store_invariant s \<Longrightarrow> store_invariant (snd (Math_register_push_notification mm s request))"
  by (simp_all add: register_push_notification_def Math_register_push_notification_def
      set_push_notification_info_def Math_set_push_notification_info_def
      store_invariant_base_set_push split: option.splits)

lemma increment_update_state:
  "state (fst (increment_update item)) \<in> {WORKING, INPUT_REQUIRED, COMPLETED}"
  "state (fst (Math_increment_update item)) \<in> {WORKING, INPUT_REQUIRED, COMPLETED}"
  by (simp_all add: increment_update_def Math_increment_update_def Let_def)

lemma store_invariant_stream_item:
  assumes "store_invariant s"
  shows "store_invariant (snd (stream_item m p item s))"
proof -
  obtain st art fin where iu: "increment_update item = (st, art, fin)"
    by (cases "increment_update item") auto
  with increment_update_state(1) [of item]
  have ok: "state st \<in> {WORKING, INPUT_REQUIRED, COMPLETED}" by simp
  let ?arts = "case art of None \<Rightarrow> None | Some a \<Rightarrow> Some [a]"
  obtain r s1 where us: "update_store s (params_id p) st ?arts = (r, s1)"
    by (cases "update_store s (params_id p) st ?arts") auto
  from store_invariant_update_store [OF assms ok, of "params_id p" ?arts] us
  have i1: "store_invariant s1" by simp
  show ?thesis
  proof (cases r)
    case (Inl e)
    with iu us i1 show ?thesis by (simp add: stream_item_def)
  next
    case (Inr latest)
    from i1 have i2: "store_invariant (send_task_notification m s1 latest)"
      by (rule store_invariant_notification)
    show ?thesis
    proof (cases art)
      case None
      with iu us Inr i2 show ?thesis
        by (simp add: stream_item_def Let_def store_invariant_enqueue)
    next
      case (Some a)
      obtain r3 s3 where e3: "enqueue_events_for_sse (send_task_notification m s1 latest)
          (params_id p) (TaskArtifactUpdateEvent (params_id p) a) = (r3, s3)"
        by (cases "enqueue_events_for_sse (send_task_notification m s1 latest)
          (params_id p) (TaskArtifactUpdateEvent (params_id p) a)") auto
      from store_invariant_enqueue [OF i2, of "params_id p"
          "TaskArtifactUpdateEvent (params_id p) a"] e3
      have i3: "store_invariant s3" by simp
      from iu us Inr Some e3 i3 show ?thesis
        by (cases r3) (simp_all add: stream_item_def Let_def store_invariant_enqueue)
    qed
  qed
qed

lemma store_invariant_Math_stream_item:
  assumes "store_invariant s"
  shows "store_invariant (snd (Math_stream_item m p item s))"
proof -
  obtain st art fin where iu: "Math_increment_update item = (st, art, fin)"
    by (cases "Math_increment_update item") auto
  with increment_update_state(2) [of item]
  have ok: "state st \<in> {WORKING, INPUT_REQUIRED, COMPLETED}" by simp
  let ?arts = "case art of None \<Rightarrow> None | Some a \<Rightarrow> Some [a]"
  obtain r s1 where us: "update_store s (params_id p) st ?arts = (r, s1)"
    by (cases "update_store s (params_id p) st ?arts") auto
  from store_invariant_update_store [OF assms ok, of "params_id p" ?arts] us
  have i1: "store_invariant s1" by simp
  show ?thesis
  proof (cases r)
    case (Inl e)
    with iu us i1 show ?thesis by (simp add: Math_stream_item_def)
  next
    case (Inr latest)
    from i1 have i2: "store_invariant (Math_send_task_notification m s1 latest)"
      by (rule store_invariant_notification)
    show ?thesis
    proof (cases art)
      case None
      with iu us Inr i2 show ?thesis
        by (simp add: Math_stream_item_def Let_def store_invariant_enqueue)
    next
      case (Some a)
      obtain r3 s3 where e3: "enqueue_events_for_sse (Math_send_task_notification m s1 latest)
          (params_id p) (TaskArtifactUpdateEvent (params_id p) a) = (r3, s3)"
        by (cases "enqueue_events_for_sse (Math_send_task_notification m s1 latest)
          (params_id p) (TaskArtifactUpdateEvent (params_id p) a)") auto
      from store_invariant_enqueue [OF i2, of "params_id p"
          "TaskArtifactUpdateEvent (params_id p) a"] e3
      have i3: "store_invariant s3" by simp
      from iu us Inr Some e3 i3 show ?thesis
        by (cases r3) (simp_all add: Math_stream_item_def Let_def store_invariant_enqueue)
    qed
  qed
qed

lemma store_invariant_stream_loop:
  "store_invariant s \<Longrightarrow> store_invariant (snd (stream_loop m p items s))"
proof (induction m p items s rule: stream_loop.induct)
  case (3 m p item rest s)
  obtain r s1 where si: "stream_item m p item s = (r, s1)"
    by (cases "stream_item m p item s") auto
  from store_invariant_stream_item [OF "3.prems", of m p item] si
  have i1: "store_invariant s1" by simp
  show ?case
  proof (cases r)
    case (Inl e)
    with si i1 show ?thesis by simp
  next
    case (Inr u)
    with si i1 "3.IH" show ?thesis by auto
  qed
qed simp_all

lemma store_invariant_Math_stream_loop:
  "store_invariant s \<Longrightarrow> store_invariant (snd (Math_stream_loop m p items s))"
proof (induction m p items s rule: Math_stream_loop.induct)
  case (3 m p item rest s)
  obtain r s1 where si: "Math_stream_item m p item s = (r, s1)"
    by (cases "Math_stream_item m p item s") auto
  from store_invariant_Math_stream_item [OF "3.prems", of m p item] si
  have i1: "store_invariant s1" by simp
  show ?case
  proof (cases r)
    case (Inl e)
    with si i1 show ?thesis by simp
  next
    case (Inr u)
    with si i1 "3.IH" show ?thesis by auto
  qed
qed simp_all

lemma store_invariant_run_streaming_agent:
  assumes "store_invariant s"
  shows "store_invariant (snd (run_streaming_agent m s request))"
proof (cases "get_user_query (params request)")
  case (Inl e)
  with assms show ?thesis by (simp add: run_streaming_agent_def)
next
  case (Inr q)
  obtain r s1 where sl: "stream_loop m (params request)
      (stream (agent m) q (params_sessionId (params request))) s = (r, s1)"
    by (cases "stream_loop m (params request)
      (stream (agent m) q (params_sessionId (params request))) s") auto
  from store_invariant_stream_loop [OF assms, of m "params request"
      "stream (agent m) q (params_sessionId (params request))"] sl
  have "store_invariant s1" by simp
  with Inr sl show ?thesis
    by (cases r) (simp_all add: run_streaming_agent_def Let_def store_invariant_enqueue)
qed

lemma store_invariant_Math_run_streaming_agent:
  assumes "store_invariant s"
  shows "store_invariant (snd (Math_run_streaming_agent m s request))"
proof (cases "get_user_query (params request)")
  case (Inl e)
  with assms show ?thesis by (simp add: Math_run_streaming_agent_def)
next
  case (Inr q)
  obtain r s1 where sl: "Math_stream_loop m (params request)
      (stream (math_agent m) q (params_sessionId (params request))) s = (r, s1)"
    by (cases "Math_stream_loop m (params request)
      (stream (math_agent m) q (params_sessionId (params request))) s") auto
  from store_invariant_Math_stream_loop [OF assms, of m "params request"
      "stream (math_agent m) q (params_sessionId (params request))"] sl
  have "store_invariant s1" by simp
  with Inr sl show ?thesis
    by (cases r) (simp_all add: Math_run_streaming_agent_def Let_def store_invariant_enqueue)
qed

lemma store_invariant_on_send_task_subscribe:
  assumes "store_invariant s"
  shows "store_invariant (snd (on_send_task_subscribe m s request))"
proof -
  have "store_invariant (snd (register_push_notification m (snd (upsert_task s (params request)))
          request))"
    by (intro store_invariant_register store_invariant_upsert_task assms)
  then show ?thesis
    using assms
    by (simp add: on_send_task_subscribe_def split_beta store_invariant_setup
        split: option.splits sum.splits)
qed

lemma store_invariant_Math_on_send_task_subscribe:
  assumes "store_invariant s"
  shows "store_invariant (snd (Math_on_send_task_subscribe m s request))"
proof -
  have "store_invariant (snd (Math_register_push_notification m
          (snd (upsert_task s (params request))) request))"
    by (intro store_invariant_register store_invariant_upsert_task assms)
  then show ?thesis
    using assms
    by (simp add: Math_on_send_task_subscribe_def split_beta store_invariant_setup
        split: option.splits sum.splits)
qed

lemma store_invariant_process_agent_response:
  assumes "store_invariant s"
  shows "store_invariant (snd (process_agent_response m s request r))"
    and "store_invariant (snd (Math_process_agent_response mm s request r))"
proof -
  let ?tid = "params_id (params request)"
  have a: "store_invariant (snd (update_store s ?tid st arts))"
    if "state st \<in> {WORKING, INPUT_REQUIRED, COMPLETED}" for st arts
    using assms that by (rule store_invariant_update_store)
  show "store_invariant (snd (process_agent_response m s request r))"
  proof (cases "require_user_input r")
    case True
    let ?st = "\<lparr>state = INPUT_REQUIRED,
                 message = Some \<lparr>role = ''agent'', parts = [TextPart (content r)]\<rparr>\<rparr>"
    have "store_invariant (snd (update_store s ?tid ?st None))" by (rule a) simp
    then show ?thesis
      using True
      by (cases "update_store s ?tid ?st None")
         (auto simp add: process_agent_response_def Let_def store_invariant_notification
           split: sum.splits)
  next
    case False
    let ?st = "\<lparr>state = COMPLETED, message = None\<rparr>"
    let ?arts = "Some [\<lparr>artifact_role = Some ''assistant'',
                        artifact_parts = [TextPart (content r)],
                        artifact_index = None, artifact_append = None\<rparr>]"
    have "store_invariant (snd (update_store s ?tid ?st ?arts))" by (rule a) simp
    then show ?thesis
      using False
      by (cases "update_store s ?tid ?st ?arts")
         (auto simp add: process_agent_response_def Let_def store_invariant_notification
           split: sum.splits)
  qed
  show "store_invariant (snd (Math_process_agent_response mm s request r))"
  proof (cases "require_user_input r")
    case True
    let ?st = "\<lparr>state = INPUT_REQUIRED,
                 message = Some \<lparr>role = ''agent'', parts = [TextPart (content r)]\<rparr>\<rparr>"
    have "store_invariant (snd (update_store s ?tid ?st None))" by (rule a) simp
    then show ?thesis
      using True
      by (cases "update_store s ?tid ?st None")
         (auto simp add: Math_process_agent_response_def Let_def store_invariant_notification
           split: sum.splits)
  next
    case False
    let ?st = "\<lparr>state = COMPLETED, message = None\<rparr>"
    let ?arts = "Some [\<lparr>artifact_role = None,
                        artifact_parts = [TextPart (content r)],
                        artifact_index = None, artifact_append = None\<rparr>]"
    have "store_invariant (snd (update_store s ?tid ?st ?arts))" by (rule a) simp
    then show ?thesis
      using False
      by (cases "update_store s ?tid ?st ?arts")
         (auto simp add: Math_process_agent_response_def Let_def store_invariant_notification
           split: sum.splits)
  qed
qed

lemma store_invariant_working_store:
  "store_invariant s \<Longrightarrow> store_invariant (working_store s p)"
  unfolding working_store_def
  by (intro store_invariant_update_store store_invariant_upsert_task) simp_all

lemma store_invariant_on_send_task:
  assumes "store_invariant s"
  shows "store_invariant (snd (on_send_task m s request))"
proof (cases "validate_request m request")
  case (Some err)
  with assms show ?thesis by (simp add: on_send_task_def)
next
  case None
  obtain ok s1 where reg: "register_push_notification m s request = (ok, s1)"
    by (cases "register_push_notification m s request") auto
  from store_invariant_register(1) [OF assms, of m request] reg
  have i1: "store_invariant s1" by simp
  show ?thesis
  proof (cases ok)
    case False
    with None reg i1 show ?thesis by (simp add: on_send_task_def)
  next
    case True
    let ?s4 = "send_task_notification m (working_store s1 (params request))
                 (working_task s1 (params request))"
    have i4: "store_invariant ?s4"
      by (intro store_invariant_notification store_invariant_working_store i1)
    note p = store_invariant_process_agent_response(1) [OF i4, of m request]
    from True reg have reg': "register_push_notification m s request = (True, s1)" by simp
    show ?thesis
      using i4 p
      by (auto simp add: on_send_task_accepted [OF None reg'] Let_def
          split: sum.splits prod.splits) (metis snd_conv)+
  qed
qed

lemma store_invariant_Math_on_send_task:
  assumes "store_invariant s"
  shows "store_invariant (snd (Math_on_send_task m s request))"
proof (cases "Math_validate_request request")
  case (Some err)
  with assms show ?thesis by (simp add: Math_on_send_task_def)
next
  case None
  obtain ok s1 where reg: "Math_register_push_notification m s request = (ok, s1)"
    by (cases "Math_register_push_notification m s request") auto
  from store_invariant_register(2) [OF assms, of m request] reg
  have i1: "store_invariant s1" by simp
  show ?thesis
  proof (cases ok)
    case False
    with None reg i1 show ?thesis by (simp add: Math_on_send_task_def)
  next
    case True
    let ?s4 = "Math_send_task_notification m (working_store s1 (params request))
                 (working_task s1 (params request))"
    have i4: "store_invariant ?s4"
      by (intro store_invariant_notification store_invariant_working_store i1)
    note p = store_invariant_process_agent_response(2) [OF i4, of m request]
    from True reg have reg': "Math_register_push_notification m s request = (True, s1)" by simp
    show ?thesis
      using i4 p
      by (auto simp add: Math_on_send_task_accepted [OF None reg'] Let_def
          split: sum.splits prod.splits)
  qed
qed

text \<open>
  Claim C9. No operation of either manager writes FAILED or CANCELED. Every status passed
  to \<^verbatim>\<open>update_store\<close> has its state among WORKING, INPUT_REQUIRED and COMPLETED, and the
  stored states are among SUBMITTED, WORKING, INPUT_REQUIRED and COMPLETED: this holds of
  the empty store and is kept by \<^verbatim>\<open>on_send_task\<close>, \<^verbatim>\<open>on_send_task_subscribe\<close> and the
  streaming run of both managers.
\<close>

theorem only_working_input_required_completed_written:
  "store_invariant empty_store
   \<and> (store_invariant s \<longrightarrow>
        store_invariant (snd (on_send_task m s request))
      \<and> store_invariant (snd (on_send_task_subscribe m s request))
      \<and> store_invariant (snd (run_streaming_agent m s request))
      \<and> store_invariant (snd (Math_on_send_task mm s request))
      \<and> store_invariant (snd (Math_on_send_task_subscribe mm s request))
      \<and> store_invariant (snd (Math_run_streaming_agent mm s request)))"
  by (simp add: store_invariant_on_send_task store_invariant_on_send_task_subscribe
      store_invariant_run_streaming_agent store_invariant_Math_on_send_task
      store_invariant_Math_on_send_task_subscribe store_invariant_Math_run_streaming_agent)
     (simp add: store_invariant_def stored_states_allowed_def empty_store_def)

section \<open>The user query (claim C10)\<close>

text \<open>The streaming loop reads the task id of the request parameters and nothing else.\<close>

lemma stream_item_params_id:
  "params_id p = params_id p' \<Longrightarrow> stream_item m p item s = stream_item m p' item s"
  by (simp add: stream_item_def)

lemma Math_stream_item_params_id:
  "params_id p = params_id p' \<Longrightarrow> Math_stream_item m p item s = Math_stream_item m p' item s"
  by (simp add: Math_stream_item_def)

lemma stream_loop_params_id:
  "params_id p = params_id p' \<Longrightarrow> stream_loop m p xs s = stream_loop m p' xs s"
proof (induction m p xs s rule: stream_loop.induct)
  case (3 m p item rest s)
  from "3.prems" have e: "stream_item m p item s = stream_item m p' item s"
    by (rule stream_item_params_id)
  show ?case
  proof (cases "stream_item m p' item s")
    case (Pair r s1)
    show ?thesis
    proof (cases r)
      case (Inl x)
      with Pair e show ?thesis by simp
    next
      case (Inr u)
      with Pair e "3.IH" "3.prems" show ?thesis by auto
    qed
  qed
qed simp_all

lemma Math_stream_loop_params_id:
  "params_id p = params_id p' \<Longrightarrow> Math_stream_loop m p xs s = Math_stream_loop m p' xs s"
proof (induction m p xs s rule: Math_stream_loop.induct)
  case (3 m p item rest s)
  from "3.prems" have e: "Math_stream_item m p item s = Math_stream_item m p' item s"
    by (rule Math_stream_item_params_id)
  show ?case
  proof (cases "Math_stream_item m p' item s")
    case (Pair r s1)
    show ?thesis
    proof (cases r)
      case (Inl x)
      with Pair e show ?thesis by simp
    next
      case (Inr u)
      with Pair e "3.IH" "3.prems" show ?thesis by auto
    qed
  qed
qed simp_all

text \<open>The parts after the first do not reach the handlers.\<close>

lemma with_parts_fields:
  "request_id (with_parts request ps) = request_id request"
  "params_id (params (with_parts request ps)) = params_id (params request)"
  "params_sessionId (params (with_parts request ps)) = params_sessionId (params request)"
  "acceptedOutputModes (params (with_parts request ps)) = acceptedOutputModes (params request)"
  "pushNotification (params (with_parts request ps)) = pushNotification (params request)"
  "historyLength (params (with_parts request ps)) = historyLength (params request)"
  "parts (params_message (params (with_parts request ps))) = ps"
  by (simp_all add: with_parts_def)

lemma with_parts_ignored:
  "validate_request m (with_parts request ps) = validate_request m request"
  "Math_validate_request (with_parts request ps) = Math_validate_request request"
  "register_push_notification m s (with_parts request ps) =
     register_push_notification m s request"
  "Math_register_push_notification mm s (with_parts request ps) =
     Math_register_push_notification mm s request"
  "upsert_task s (params (with_parts request ps)) = upsert_task s (params request)"
  "process_agent_response m s (with_parts request ps) r = process_agent_response m s request r"
  "Math_process_agent_response mm s (with_parts request ps) r =
     Math_process_agent_response mm s request r"
  by (simp_all add: validate_request_def Math_validate_request_def validate_request_for_def
      register_push_notification_def Math_register_push_notification_def
      set_push_notification_info_def Math_set_push_notification_info_def upsert_task_def
      process_agent_response_def Math_process_agent_response_def with_parts_fields
      new_incompatible_types_error_def Let_def split_beta
      cong: option.case_cong sum.case_cong if_cong)

lemma get_user_query_with_parts:
  "get_user_query (params (with_parts request (x # rest))) =
     (case x of TextPart t \<Rightarrow> Inr t
      | _ \<Rightarrow> Inl (ValueError ''Only text parts are supported''))"
  by (simp add: get_user_query_def with_parts_fields split: Part.splits)

lemma on_send_task_with_parts:
  "on_send_task m s (with_parts request (x # rest)) = on_send_task m s (with_parts request [x])"
  by (simp add: on_send_task_def with_parts_ignored with_parts_fields
      get_user_query_with_parts Let_def split_beta
      cong: option.case_cong sum.case_cong if_cong)

lemma Math_on_send_task_with_parts:
  "Math_on_send_task m s (with_parts request (x # rest)) =
   Math_on_send_task m s (with_parts request [x])"
  by (simp add: Math_on_send_task_def with_parts_ignored with_parts_fields
      get_user_query_with_parts Let_def split_beta
      cong: option.case_cong sum.case_cong if_cong)

lemma stream_loop_with_parts:
  "stream_loop m (params (with_parts request ps)) xs s = stream_loop m (params request) xs s"
  "Math_stream_loop mm (params (with_parts request ps)) xs s =
     Math_stream_loop mm (params request) xs s"
  by (rule stream_loop_params_id, simp add: with_parts_fields)
     (rule Math_stream_loop_params_id, simp add: with_parts_fields)

lemma run_streaming_agent_with_parts:
  "run_streaming_agent m s (with_parts request (x # rest)) =
   run_streaming_agent m s (with_parts request [x])"
  by (simp add: run_streaming_agent_def with_parts_fields get_user_query_with_parts
      stream_loop_with_parts Let_def cong: sum.case_cong)

lemma Math_run_streaming_agent_with_parts:
  "Math_run_streaming_agent m s (with_parts request (x # rest)) =
   Math_run_streaming_agent m s (with_parts request [x])"
  by (simp add: Math_run_streaming_agent_def with_parts_fields get_user_query_with_parts
      stream_loop_with_parts Let_def cong: sum.case_cong)

lemma working_with_parts:
  "working_store s (params (with_parts request ps)) = working_store s (params request)"
  "working_task s (params (with_parts request ps)) = working_task s (params request)"
  by (simp_all add: working_store_def working_task_def upserted_task_def with_parts_ignored
      with_parts_fields cong: option.case_cong)

lemma on_send_task_text_first:
  assumes "validate_request m request = None"
    and "register_push_notification m s request = (True, s1)"
  shows "on_send_task m s (with_parts request (TextPart t # rest)) =
     (let s4 = send_task_notification m (working_store s1 (params request))
                 (working_task s1 (params request))
      in case invoke (agent m) t (params_sessionId (params request)) of
           Inl e \<Rightarrow>
             (Inr \<lparr>response_id = request_id request, result = None,
                   error = Some (InternalError (''Error invoking agent: '' @ exn_str e))\<rparr>, s4)
         | Inr agent_response \<Rightarrow>
             (case process_agent_response m s4 request agent_response of
                (Inl e, s5) \<Rightarrow>
                  (Inr \<lparr>response_id = request_id request, result = None,
                        error = Some (InternalError
                          (''Error invoking agent: '' @ exn_str e))\<rparr>, s5)
              | (Inr response, s5) \<Rightarrow> (Inr response, s5)))"
proof -
  have v: "validate_request m (with_parts request (TextPart t # rest)) = None"
    using assms(1) by (simp add: with_parts_ignored)
  have r: "register_push_notification m s (with_parts request (TextPart t # rest)) = (True, s1)"
    using assms(2) by (simp add: with_parts_ignored)
  show ?thesis
    by (simp add: on_send_task_accepted [OF v r] get_user_query_with_parts working_with_parts
        with_parts_fields with_parts_ignored Let_def cong: sum.case_cong)
qed

lemma Math_on_send_task_text_first:
  assumes "Math_validate_request request = None"
    and "Math_register_push_notification mm s request = (True, s1)"
  shows "Math_on_send_task mm s (with_parts request (TextPart t # rest)) =
     (let s4 = Math_send_task_notification mm (working_store s1 (params request))
                 (working_task s1 (params request))
      in case invoke (math_agent mm) t (params_sessionId (params request)) of
           Inl e \<Rightarrow> (Inl (ValueError (''Error invoking agent: '' @ exn_str e)), s4)
         | Inr agent_response \<Rightarrow> Math_process_agent_response mm s4 request agent_response)"
proof -
  have v: "Math_validate_request (with_parts request (TextPart t # rest)) = None"
    using assms(1) by (simp add: with_parts_ignored)
  have r: "Math_register_push_notification mm s (with_parts request (TextPart t # rest)) =
      (True, s1)"
    using assms(2) by (simp add: with_parts_ignored)
  show ?thesis
    by (simp add: Math_on_send_task_accepted [OF v r] get_user_query_with_parts
        working_with_parts with_parts_fields with_parts_ignored Let_def cong: sum.case_cong)
qed

lemma run_streaming_agent_text_first:
  "run_streaming_agent m s (with_parts request (TextPart t # rest)) =
     (case stream_loop m (params request)
             (stream (agent m) t (params_sessionId (params request))) s of
        (Inr u, s1) \<Rightarrow> (Inr (), s1)
      | (Inl e, s1) \<Rightarrow>
          enqueue_events_for_sse s1 (params_id (params request))
            (ErrorEvent (InternalError
               (''An error occurred while streaming the response: '' @ exn_str e))))"
  by (simp add: run_streaming_agent_def with_parts_fields get_user_query_with_parts
      stream_loop_with_parts Let_def split_beta cong: sum.case_cong)

lemma Math_run_streaming_agent_text_first:
  "Math_run_streaming_agent mm s (with_parts request (TextPart t # rest)) =
     (case Math_stream_loop mm (params request)
             (stream (math_agent mm) t (params_sessionId (params request))) s of
        (Inr u, s1) \<Rightarrow> (Inr (), s1)
      | (Inl e, s1) \<Rightarrow>
          enqueue_events_for_sse s1 (params_id (params request))
            (ErrorEvent (InternalError
               (''An error occurred while streaming the response: '' @ exn_str e))))"
  by (simp add: Math_run_streaming_agent_def with_parts_fields get_user_query_with_parts
      stream_loop_with_parts Let_def split_beta cong: sum.case_cong)

text \<open>
  Claim C10. At the public interface the user query is the first part of the request
  message and nothing else. A message whose first part is the text part \<open>t\<close> is accepted
  whatever follows: once the request is validated and its push target registered,
  \<^verbatim>\<open>on_send_task\<close> invokes the agent with the query \<open>t\<close> and answers with what comes of
  that call, and the streaming run streams the agent with the query \<open>t\<close>; no content
  error is raised. The parts after the first, text or not, change neither the outcome nor
  the store of \<^verbatim>\<open>on_send_task\<close> and of the streaming run, in both managers.
\<close>

theorem user_query_first_part_only:
  "get_user_query (params (with_parts request (TextPart t # rest))) = Inr t
   \<and> (validate_request m request = None
        \<and> register_push_notification m s request = (True, s1) \<longrightarrow>
      on_send_task m s (with_parts request (TextPart t # rest)) =
        (let s4 = send_task_notification m (working_store s1 (params request))
                    (working_task s1 (params request))
         in case invoke (agent m) t (params_sessionId (params request)) of
              Inl e \<Rightarrow>
                (Inr \<lparr>response_id = request_id request, result = None,
                      error = Some (InternalError
                        (''Error invoking agent: '' @ exn_str e))\<rparr>, s4)
            | Inr agent_response \<Rightarrow>
                (case process_agent_response m s4 request agent_response of
                   (Inl e, s5) \<Rightarrow>
                     (Inr \<lparr>response_id = request_id request, result = None,
                           error = Some (InternalError
                             (''Error invoking agent: '' @ exn_str e))\<rparr>, s5)
                 | (Inr response, s5) \<Rightarrow> (Inr response, s5))))
   \<and> (Math_validate_request request = None
        \<and> Math_register_push_notification mm s request = (True, s1') \<longrightarrow>
      Math_on_send_task mm s (with_parts request (TextPart t # rest)) =
        (let s4 = Math_send_task_notification mm (working_store s1' (params request))
                    (working_task s1' (params request))
         in case invoke (math_agent mm) t (params_sessionId (params request)) of
              Inl e \<Rightarrow> (Inl (ValueError (''Error invoking agent: '' @ exn_str e)), s4)
            | Inr agent_response \<Rightarrow>
                Math_process_agent_response mm s4 request agent_response))
   \<and> run_streaming_agent m s (with_parts request (TextPart t # rest)) =
        (case stream_loop m (params request)
                (stream (agent m) t (params_sessionId (params request))) s of
           (Inr u, s2) \<Rightarrow> (Inr (), s2)
         | (Inl e, s2) \<Rightarrow>
             enqueue_events_for_sse s2 (params_id (params request))
               (ErrorEvent (InternalError
                  (''An error occurred while streaming the response: '' @ exn_str e))))
   \<and> Math_run_streaming_agent mm s (with_parts request (TextPart t # rest)) =
        (case Math_stream_loop mm (params request)
                (stream (math_agent mm) t (params_sessionId (params request))) s of
           (Inr u, s2) \<Rightarrow> (Inr (), s2)
         | (Inl e, s2) \<Rightarrow>
             enqueue_events_for_sse s2 (params_id (params request))
               (ErrorEvent (InternalError
                  (''An error occurred while streaming the response: '' @ exn_str e))))
   \<and> on_send_task m s (with_parts request (x # rest)) =
       on_send_task m s (with_parts request [x])
   \<and> Math_on_send_task mm s (with_parts request (x # rest)) =
       Math_on_send_task mm s (with_parts request [x])
   \<and> run_streaming_agent m s (with_parts request (x # rest)) =
       run_streaming_agent m s (with_parts request [x])
   \<and> Math_run_streaming_agent mm s (with_parts request (x # rest)) =
       Math_run_streaming_agent mm s (with_parts request [x])"
proof (intro conjI impI)
  show "get_user_query (params (with_parts request (TextPart t # rest))) = Inr t"
    by (simp add: get_user_query_with_parts)
next
  assume "validate_request m request = None \<and>
    register_push_notification m s request = (True, s1)"
  then show "on_send_task m s (with_parts request (TextPart t # rest)) =
        (let s4 = send_task_notification m (working_store s1 (params request))
                    (working_task s1 (params request))
         in case invoke (agent m) t (params_sessionId (params request)) of
              Inl e \<Rightarrow>
                (Inr \<lparr>response_id = request_id request, result = None,
                      error = Some (InternalError
                        (''Error invoking agent: '' @ exn_str e))\<rparr>, s4)
            | Inr agent_response \<Rightarrow>
                (case process_agent_response m s4 request agent_response of
                   (Inl e, s5) \<Rightarrow>
                     (Inr \<lparr>response_id = request_id request, result = None,
                           error = Some (InternalError
                             (''Error invoking agent: '' @ exn_str e))\<rparr>, s5)
                 | (Inr response, s5) \<Rightarrow> (Inr response, s5)))"
    using on_send_task_text_first [of m request s s1 t rest] by blast
next
  assume "Math_validate_request request = None \<and>
    Math_register_push_notification mm s request = (True, s1')"
  then show "Math_on_send_task mm s (with_parts request (TextPart t # rest)) =
        (let s4 = Math_send_task_notification mm (working_store s1' (params request))
                    (working_task s1' (params request))
         in case invoke (math_agent mm) t (params_sessionId (params request)) of
              Inl e \<Rightarrow> (Inl (ValueError (''Error invoking agent: '' @ exn_str e)), s4)
            | Inr agent_response \<Rightarrow>
                Math_process_agent_response mm s4 request agent_response)"
    using Math_on_send_task_text_first [of request mm s s1' t rest] by blast
qed (rule run_streaming_agent_text_first Math_run_streaming_agent_text_first
       on_send_task_with_parts Math_on_send_task_with_parts run_streaming_agent_with_parts
       Math_run_streaming_agent_with_parts)+

text \<open>
  Claim C10 at a request whose text part is followed by a file part: the agent is invoked
  and the task completed, as for the text part alone.
\<close>

theorem user_query_first_part_only_witness:
  "with_parts two_part_request [TextPart ''2+2'', FilePart ''a.png''] = two_part_request
   \<and> validate_request (guarded_manager answering_agent) two_part_request = None
   \<and> register_push_notification (guarded_manager answering_agent) empty_store
        two_part_request = (True, empty_store)
   \<and> fst (on_send_task (guarded_manager answering_agent) empty_store two_part_request) =
       Inr \<lparr>response_id = 8,
            result = Some \<lparr>task_id = ''t1'', sessionId = ''s1'',
               status = \<lparr>state = COMPLETED, message = None\<rparr>,
               artifacts = [\<lparr>artifact_role = Some ''assistant'',
                             artifact_parts = [TextPart ''4''],
                             artifact_index = None, artifact_append = None\<rparr>],
               history = [\<lparr>state = WORKING, message = None\<rparr>]\<rparr>,
            error = None\<rparr>"
proof -
  have wp: "with_parts two_part_request [TextPart ''2+2'', FilePart ''a.png''] =
      two_part_request"
    by (simp add: with_parts_def two_part_request_def text_params_def)
  have v: "validate_request (guarded_manager answering_agent) two_part_request = None"
    by (simp add: example_defs more_example_defs handler_defs)
  have r: "register_push_notification (guarded_manager answering_agent) empty_store
        two_part_request = (True, empty_store)"
    by (simp add: example_defs more_example_defs handler_defs)
  from user_query_first_part_only
    [where request = two_part_request and t = "''2+2''" and rest = "[FilePart ''a.png'']"
       and m = "guarded_manager answering_agent" and s = empty_store and ?s1.0 = empty_store]
    v r
  have "on_send_task (guarded_manager answering_agent) empty_store two_part_request =
        (let s4 = send_task_notification (guarded_manager answering_agent)
                    (working_store empty_store (params two_part_request))
                    (working_task empty_store (params two_part_request))
         in case invoke (agent (guarded_manager answering_agent)) ''2+2''
                   (params_sessionId (params two_part_request)) of
              Inl e \<Rightarrow>
                (Inr \<lparr>response_id = request_id two_part_request, result = None,
                      error = Some (InternalError
                        (''Error invoking agent: '' @ exn_str e))\<rparr>, s4)
            | Inr agent_response \<Rightarrow>
                (case process_agent_response (guarded_manager answering_agent) s4
                        two_part_request agent_response of
                   (Inl e, s5) \<Rightarrow>
                     (Inr \<lparr>response_id = request_id two_part_request, result = None,
                           error = Some (InternalError
                             (''Error invoking agent: '' @ exn_str e))\<rparr>, s5)
                 | (Inr response, s5) \<Rightarrow> (Inr response, s5)))"
    unfolding wp by blast
  then have "fst (on_send_task (guarded_manager answering_agent) empty_store
                    two_part_request) =
       Inr \<lparr>response_id = 8,
            result = Some \<lparr>task_id = ''t1'', sessionId = ''s1'',
               status = \<lparr>state = COMPLETED, message = None\<rparr>,
               artifacts = [\<lparr>artifact_role = Some ''assistant'',
                             artifact_parts = [TextPart ''4''],
                             artifact_index = None, artifact_append = None\<rparr>],
               history = [\<lparr>state = WORKING, message = None\<rparr>]\<rparr>,
            error = None\<rparr>"
    by (simp add: example_defs more_example_defs handler_defs Let_def)
  with wp v r show ?thesis by simp
qed

text \<open>
  Claim C9 at the empty store: after \<^verbatim>\<open>on_send_task\<close> the task is stored in state
  COMPLETED, and the store satisfies the invariant after each operation.
\<close>

theorem only_working_input_required_completed_written_witness:
  "store_invariant empty_store
   \<and> map_option (\<lambda>t. state (status t))
        (tasks (snd (on_send_task (guarded_manager answering_agent) empty_store text_request))
           ''t1'') = Some COMPLETED
   \<and> store_invariant
        (snd (on_send_task (guarded_manager answering_agent) empty_store text_request))
   \<and> store_invariant
        (snd (on_send_task_subscribe (guarded_manager answering_agent) empty_store
                text_request))
   \<and> store_invariant
        (snd (run_streaming_agent (guarded_manager answering_agent) empty_store text_request))
   \<and> store_invariant
        (snd (Math_on_send_task (guarded_math_manager asking_agent) empty_store text_request))
   \<and> store_invariant
        (snd (Math_on_send_task_subscribe (guarded_math_manager asking_agent) empty_store
                text_request))
   \<and> store_invariant
        (snd (Math_run_streaming_agent (guarded_math_manager asking_agent) empty_store
                text_request))"
proof -
  have c: "map_option (\<lambda>t. state (status t))
        (tasks (snd (on_send_task (guarded_manager answering_agent) empty_store text_request))
           ''t1'') = Some COMPLETED"
    by (simp add: example_defs handler_defs Let_def)
  from only_working_input_required_completed_written
    [of empty_store "guarded_manager answering_agent" text_request
        "guarded_math_manager asking_agent"] c
  show ?thesis by blast
qed

end
